theory Spec2Isabelle
  imports Main "HOL-Library.Word"
begin

unbundle bit_operations_syntax

section \<open>Machine types\<close>

type_synonym u8 = "8 word"
type_synonym u32 = "32 word"
type_synonym u64 = "64 word"

section \<open>Base/SystemDevice.h\<close>

text \<open>
  \<^verbatim>\<open>struct DeviceInfo { std::string deviceName; u64 startAddr; u64 endAddr; bool socDevice; }\<close>
\<close>

record DeviceInfo =
  deviceName :: string
  startAddr :: u64
  endAddr :: u64
  socDevice :: bool

text \<open>The constructor of \<^verbatim>\<open>SystemDevice\<close> stores its four arguments in \<^verbatim>\<open>info\<close>.\<close>

definition SystemDevice :: "string \<Rightarrow> u64 \<Rightarrow> u64 \<Rightarrow> bool \<Rightarrow> DeviceInfo" where
  "SystemDevice name startAddress endAddress isSOCDevice =
     \<lparr> deviceName = name, startAddr = startAddress, endAddr = endAddress,
       socDevice = isSOCDevice \<rparr>"

text \<open>\<^verbatim>\<open>u64 GetSize() { return info.startAddr - info.endAddr; }\<close> on unsigned 64-bit integers.\<close>

definition GetSize :: "DeviceInfo \<Rightarrow> u64" where
  "GetSize info = startAddr info - endAddr info"

section \<open>Logging and raw memory copies\<close>

text \<open>
  A call of a \<^verbatim>\<open>LOG_*\<close> macro is recorded by its level and the text of its
  message (without the formatted arguments).
\<close>

datatype log_entry =
    LOG_TRACE string
  | LOG_DEBUG string
  | LOG_INFO string
  | LOG_WARNING string
  | LOG_ERROR string
  | LOG_CRITICAL string

fun is_error :: "log_entry \<Rightarrow> bool" where
  "is_error (LOG_ERROR m) = True"
| "is_error e = False"

text \<open>
  The emulator runs on a little-endian host: the object representation of an integer
  that \<^verbatim>\<open>memcpy\<close> reads or writes is its bytes, least significant first.
\<close>

definition le_bytes :: "nat \<Rightarrow> 'a::len word \<Rightarrow> u8 list" where
  "le_bytes n w = map (\<lambda>k. ucast (drop_bit (8 * k) w)) [0..<n]"

fun le_word :: "u8 list \<Rightarrow> 'a::len word" where
  "le_word [] = 0"
| "le_word (b # bs) = ucast b OR push_bit 8 (le_word bs)"

text \<open>
  \<^verbatim>\<open>memcpy(data, src, size)\<close> into the caller's buffer \<open>data\<close>, from an object whose
  bytes are \<open>src\<close>. The buffer is a list as long as the storage behind the pointer.
  Copying more bytes than the object or the buffer holds touches memory outside them;
  the model has no value for that and returns \<open>None\<close>.
\<close>

definition memcpy_out :: "u8 list \<Rightarrow> u8 list \<Rightarrow> nat \<Rightarrow> u8 list option" where
  "memcpy_out src data size' =
     (if size' \<le> length src \<and> size' \<le> length data
      then Some (take size' src @ drop size' data) else None)"

text \<open>\<^verbatim>\<open>memcpy(data, &reg, size)\<close> for a \<^verbatim>\<open>u32\<close> object \<open>reg\<close>.\<close>

definition memcpy_from_u32 :: "u32 \<Rightarrow> u8 list \<Rightarrow> nat \<Rightarrow> u8 list option" where
  "memcpy_from_u32 reg data size' = memcpy_out (le_bytes 4 reg) data size'"

text \<open>
  \<^verbatim>\<open>memcpy(&reg, data, n)\<close> for a \<^verbatim>\<open>u32\<close> object: the first \<open>n\<close> bytes of the
  register are replaced, the others stay.
\<close>

definition memcpy_to_u32 :: "u32 \<Rightarrow> u8 list \<Rightarrow> nat \<Rightarrow> u32 option" where
  "memcpy_to_u32 reg data n =
     (if n \<le> 4 \<and> n \<le> length data
      then Some (le_word (take n data @ drop n (le_bytes 4 reg))) else None)"

text \<open>\<^verbatim>\<open>u64 tmp = 0; memcpy(&tmp, data, n);\<close>\<close>

definition memcpy_to_tmp :: "u8 list \<Rightarrow> nat \<Rightarrow> u64 option" where
  "memcpy_to_tmp data n =
     (if n \<le> 8 \<and> n \<le> length data then Some (le_word (take n data)) else None)"

text \<open>\<^verbatim>\<open>memset(data, 0xFF, size)\<close> on the caller's buffer.\<close>

definition memset_out :: "u8 \<Rightarrow> u8 list \<Rightarrow> nat \<Rightarrow> u8 list option" where
  "memset_out c data size' =
     (if size' \<le> length data then Some (replicate size' c @ drop size' data) else None)"

section \<open>Core/PCI/Bridge/PCIBridge.cpp\<close>

subsection \<open>Interrupt sources and the interrupt controller\<close>

text \<open>
  \<^verbatim>\<open>RouteInterrupt(u8 prio, u8 targetCPU)\<close> switches on \<open>prio\<close> against the constants
  \<^verbatim>\<open>PRIO_CLOCK\<close>, ..., \<^verbatim>\<open>PRIO_SFCX\<close>. Their numeric values are declared in a header
  that is not part of the sources at hand; as case labels of one switch they are
  pairwise distinct. The argument is therefore modelled by the label it equals, and
  every other byte by \<open>PRIO_OTHER\<close> (the \<^verbatim>\<open>default\<close> branch).
\<close>

datatype irq_prio =
    PRIO_CLOCK | PRIO_SATA_ODD | PRIO_SATA_HDD | PRIO_SMM
  | PRIO_OHCI_0 | PRIO_OHCI_1 | PRIO_EHCI_0 | PRIO_EHCI_1
  | PRIO_XMA | PRIO_AUDIO | PRIO_ENET | PRIO_GRAPHICS | PRIO_XPS | PRIO_SFCX
  | PRIO_OTHER u8

text \<open>
  What a bridge operation does to its surroundings, in program order: calls of the
  interrupt controller \<^verbatim>\<open>xenonIIC->genInterrupt(prio, cpu)\<close> and log lines.
\<close>

datatype bridge_effect =
    IIC_genInterrupt irq_prio u8
  | Log log_entry

fun genInterrupt_calls :: "bridge_effect list \<Rightarrow> (irq_prio \<times> u8) list" where
  "genInterrupt_calls [] = []"
| "genInterrupt_calls (IIC_genInterrupt p c # es) = (p, c) # genInterrupt_calls es"
| "genInterrupt_calls (Log l # es) = genInterrupt_calls es"

fun error_logged :: "bridge_effect list \<Rightarrow> bool" where
  "error_logged [] = False"
| "error_logged (Log l # es) = (is_error l \<or> error_logged es)"
| "error_logged (IIC_genInterrupt p c # es) = error_logged es"

subsection \<open>Bridge state\<close>

text \<open>
  Modelled from the spec: the declaration of the interrupt-priority register is missing
  from the sources; the spec gives its fields as
  \<open>{intEnabled: bit, latched: bit, targetCPU: 6 bits, cpuIRQ: 6 bits, raw: u32}\<close>,
  the raw word stored beside the derived fields. \<^verbatim>\<open>PCIBridge::Write\<close> assigns the
  fields from a \<^verbatim>\<open>bool\<close>, a \<^verbatim>\<open>bool\<close>, a \<^verbatim>\<open>u8\<close> and a \<^verbatim>\<open>u8\<close>.
\<close>

record PRIO_REG =
  hexData :: u32
  intEnabled :: bool
  latched :: bool
  targetCPU :: u8
  cpuIRQ :: u8

text \<open>
  The members of \<^verbatim>\<open>pciBridgeState\<close> that \<^verbatim>\<open>PCIBridge.cpp\<close> uses.
  \<^verbatim>\<open>PRIO_REG_GRAPHICS\<close> is read by \<^verbatim>\<open>CancelInterrupt\<close> only.
\<close>

record PCI_BRIDGE_STATE =
  REG_EA000000 :: u32
  REG_EA000004 :: u32
  REG_EA00000C :: u32
  PRIO_REG_CLCK :: PRIO_REG
  PRIO_REG_ODD :: PRIO_REG
  PRIO_REG_HDD :: PRIO_REG
  PRIO_REG_SMM :: PRIO_REG
  PRIO_REG_OHCI0 :: PRIO_REG
  PRIO_REG_OHCI1 :: PRIO_REG
  PRIO_REG_EHCI0 :: PRIO_REG
  PRIO_REG_EHCI1 :: PRIO_REG
  PRIO_REG_ENET :: PRIO_REG
  PRIO_REG_XMA :: PRIO_REG
  PRIO_REG_AUDIO :: PRIO_REG
  PRIO_REG_SFCX :: PRIO_REG
  PRIO_REG_GRAPHICS :: PRIO_REG

definition PRIO_REG_zero :: PRIO_REG where
  "PRIO_REG_zero =
     \<lparr> hexData = 0, intEnabled = False, latched = False, targetCPU = 0, cpuIRQ = 0 \<rparr>"

text \<open>
  The state after the constructor: value-initialised members, then
  \<^verbatim>\<open>pciBridgeState.REG_EA00000C = 0x7CFF\<close>.
\<close>

definition PCI_BRIDGE_STATE_init :: PCI_BRIDGE_STATE where
  "PCI_BRIDGE_STATE_init =
     \<lparr> REG_EA000000 = 0, REG_EA000004 = 0, REG_EA00000C = 0x7CFF,
       PRIO_REG_CLCK = PRIO_REG_zero, PRIO_REG_ODD = PRIO_REG_zero,
       PRIO_REG_HDD = PRIO_REG_zero, PRIO_REG_SMM = PRIO_REG_zero,
       PRIO_REG_OHCI0 = PRIO_REG_zero, PRIO_REG_OHCI1 = PRIO_REG_zero,
       PRIO_REG_EHCI0 = PRIO_REG_zero, PRIO_REG_EHCI1 = PRIO_REG_zero,
       PRIO_REG_ENET = PRIO_REG_zero, PRIO_REG_XMA = PRIO_REG_zero,
       PRIO_REG_AUDIO = PRIO_REG_zero, PRIO_REG_SFCX = PRIO_REG_zero,
       PRIO_REG_GRAPHICS = PRIO_REG_zero \<rparr>"

subsection \<open>RouteInterrupt\<close>

text \<open>One \<^verbatim>\<open>case\<close> of the switch for a source with a priority register.\<close>

definition route_if_enabled :: "PRIO_REG \<Rightarrow> irq_prio \<Rightarrow> bridge_effect list" where
  "route_if_enabled reg prio =
     (if intEnabled reg then [IIC_genInterrupt prio (targetCPU reg)] else [])"

text \<open>
  \<^verbatim>\<open>bool PCIBridge::RouteInterrupt(u8 prio, u8 targetCPU)\<close>: the effects in order, and
  the returned value (always \<^verbatim>\<open>false\<close>). The bridge state is only read.
\<close>

fun RouteInterrupt :: "PCI_BRIDGE_STATE \<Rightarrow> irq_prio \<Rightarrow> u8 \<Rightarrow> bridge_effect list \<times> bool" where
  "RouteInterrupt st PRIO_CLOCK cpu = (route_if_enabled (PRIO_REG_CLCK st) PRIO_CLOCK, False)"
| "RouteInterrupt st PRIO_SATA_ODD cpu = (route_if_enabled (PRIO_REG_ODD st) PRIO_SATA_ODD, False)"
| "RouteInterrupt st PRIO_SATA_HDD cpu = (route_if_enabled (PRIO_REG_HDD st) PRIO_SATA_HDD, False)"
| "RouteInterrupt st PRIO_SMM cpu = (route_if_enabled (PRIO_REG_SMM st) PRIO_SMM, False)"
| "RouteInterrupt st PRIO_OHCI_0 cpu = (route_if_enabled (PRIO_REG_OHCI0 st) PRIO_OHCI_0, False)"
| "RouteInterrupt st PRIO_OHCI_1 cpu = (route_if_enabled (PRIO_REG_OHCI1 st) PRIO_OHCI_1, False)"
| "RouteInterrupt st PRIO_EHCI_0 cpu = (route_if_enabled (PRIO_REG_EHCI0 st) PRIO_EHCI_0, False)"
| "RouteInterrupt st PRIO_EHCI_1 cpu = (route_if_enabled (PRIO_REG_EHCI1 st) PRIO_EHCI_1, False)"
| "RouteInterrupt st PRIO_XMA cpu = (route_if_enabled (PRIO_REG_XMA st) PRIO_XMA, False)"
| "RouteInterrupt st PRIO_AUDIO cpu = (route_if_enabled (PRIO_REG_AUDIO st) PRIO_AUDIO, False)"
| "RouteInterrupt st PRIO_ENET cpu = (route_if_enabled (PRIO_REG_ENET st) PRIO_ENET, False)"
| "RouteInterrupt st PRIO_GRAPHICS cpu =
     (if cpu \<noteq> 0xFF then [IIC_genInterrupt PRIO_GRAPHICS cpu]
      else [Log (LOG_ERROR ''Routing GFX interrupt without target CPU index.'')], False)"
| "RouteInterrupt st PRIO_XPS cpu =
     (if cpu \<noteq> 0xFF then [IIC_genInterrupt PRIO_XPS cpu]
      else [Log (LOG_ERROR ''Routing GFX interrupt without target CPU index.'')], False)"
| "RouteInterrupt st PRIO_SFCX cpu = (route_if_enabled (PRIO_REG_SFCX st) PRIO_SFCX, False)"
| "RouteInterrupt st (PRIO_OTHER b) cpu =
     ([Log (LOG_ERROR ''Unknown interrupt being routed: 0x{:X}'')], False)"

text \<open>
  The priority register a source is configured through: the register its
  \<^verbatim>\<open>case\<close> reads in \<^verbatim>\<open>RouteInterrupt\<close>, and for \<^verbatim>\<open>PRIO_GRAPHICS\<close> the one
  \<^verbatim>\<open>CancelInterrupt\<close> reads. The code names no register for \<^verbatim>\<open>PRIO_XPS\<close>.
\<close>

fun prio_reg_of :: "PCI_BRIDGE_STATE \<Rightarrow> irq_prio \<Rightarrow> PRIO_REG option" where
  "prio_reg_of st PRIO_CLOCK = Some (PRIO_REG_CLCK st)"
| "prio_reg_of st PRIO_SATA_ODD = Some (PRIO_REG_ODD st)"
| "prio_reg_of st PRIO_SATA_HDD = Some (PRIO_REG_HDD st)"
| "prio_reg_of st PRIO_SMM = Some (PRIO_REG_SMM st)"
| "prio_reg_of st PRIO_OHCI_0 = Some (PRIO_REG_OHCI0 st)"
| "prio_reg_of st PRIO_OHCI_1 = Some (PRIO_REG_OHCI1 st)"
| "prio_reg_of st PRIO_EHCI_0 = Some (PRIO_REG_EHCI0 st)"
| "prio_reg_of st PRIO_EHCI_1 = Some (PRIO_REG_EHCI1 st)"
| "prio_reg_of st PRIO_XMA = Some (PRIO_REG_XMA st)"
| "prio_reg_of st PRIO_AUDIO = Some (PRIO_REG_AUDIO st)"
| "prio_reg_of st PRIO_ENET = Some (PRIO_REG_ENET st)"
| "prio_reg_of st PRIO_SFCX = Some (PRIO_REG_SFCX st)"
| "prio_reg_of st PRIO_GRAPHICS = Some (PRIO_REG_GRAPHICS st)"
| "prio_reg_of st PRIO_XPS = None"
| "prio_reg_of st (PRIO_OTHER b) = None"

subsection \<open>Attached devices\<close>

text \<open>
  \<^verbatim>\<open>PCIDevice\<close> is a polymorphic base class; the bridge reaches a device through
  its virtual methods only. A device is a state of some type \<open>'d\<close>, and the virtual
  methods are the fields of a table. A method that copies outside an object has no
  value (\<open>None\<close>). Reading and writing may change the device; each method returns
  what it logs.
\<close>

record 'd PCIDevice_ops =
  IsAddressMappedInBAR :: "'d \<Rightarrow> u32 \<Rightarrow> bool"
  dev_Read :: "'d \<Rightarrow> u64 \<Rightarrow> u8 list \<Rightarrow> nat \<Rightarrow> ('d \<times> u8 list \<times> log_entry list) option"
  dev_Write :: "'d \<Rightarrow> u64 \<Rightarrow> u8 list \<Rightarrow> nat \<Rightarrow> ('d \<times> log_entry list) option"
  dev_ConfigRead :: "'d \<Rightarrow> u64 \<Rightarrow> u8 list \<Rightarrow> nat \<Rightarrow> (u8 list \<times> log_entry list) option"
  dev_ConfigWrite :: "'d \<Rightarrow> u64 \<Rightarrow> u8 list \<Rightarrow> nat \<Rightarrow> ('d \<times> log_entry list) option"

text \<open>
  The bridge object: its register file, its own 256-byte configuration space
  (\<^verbatim>\<open>pciBridgeConfig.data\<close>) and the devices attached by name. The container is
  iterated in some fixed order; the list is that order.
\<close>

record 'd PCIBridge =
  pciBridgeState :: PCI_BRIDGE_STATE
  pciBridgeConfig :: "u8 list"
  connectedPCIDevices :: "(string \<times> 'd) list"

text \<open>
  Modelled from the spec: the macros \<^verbatim>\<open>PCI_BRIDGE_BASE_ADDRESS\<close> and
  \<^verbatim>\<open>PCI_BRIDGE_BASE_END_ADDRESS\<close> are declared in a header that is not at hand. The
  spec gives the bridge's window as \<open>0xEA00_0000..0xEA00_FFFF\<close>; the code compares
  with \<^verbatim>\<open>>=\<close> and \<^verbatim>\<open><=\<close>.
\<close>

definition PCI_BRIDGE_BASE_ADDRESS :: u64 where
  "PCI_BRIDGE_BASE_ADDRESS = 0xEA000000"

definition PCI_BRIDGE_BASE_END_ADDRESS :: u64 where
  "PCI_BRIDGE_BASE_END_ADDRESS = 0xEA00FFFF"

subsection \<open>Read\<close>

definition read_reg :: "u32 \<Rightarrow> u8 list \<Rightarrow> nat \<Rightarrow> (u8 list \<times> log_entry list) option" where
  "read_reg reg data size' = map_option (\<lambda>d. (d, [])) (memcpy_from_u32 reg data size')"

text \<open>
  The \<^verbatim>\<open>switch (readAddress)\<close> of \<^verbatim>\<open>PCIBridge::Read\<close>, taken when the address lies in
  the bridge's own window: the new content of the caller's buffer and the log.
\<close>

definition own_Read ::
  "PCI_BRIDGE_STATE \<Rightarrow> u64 \<Rightarrow> u8 list \<Rightarrow> nat \<Rightarrow> (u8 list \<times> log_entry list) option" where
  "own_Read st a data size' =
     (if a = 0xEA000000 then read_reg (REG_EA000000 st) data size'
      else if a = 0xEA000004 then read_reg (REG_EA000004 st) data size'
      else if a = 0xEA00000C then read_reg (REG_EA00000C st) data size'
      else if a = 0xEA000010 then read_reg (hexData (PRIO_REG_CLCK st)) data size'
      else if a = 0xEA000014 then read_reg (hexData (PRIO_REG_ODD st)) data size'
      else if a = 0xEA000018 then read_reg (hexData (PRIO_REG_HDD st)) data size'
      else if a = 0xEA00001C then read_reg (hexData (PRIO_REG_SMM st)) data size'
      else if a = 0xEA000020 then read_reg (hexData (PRIO_REG_OHCI0 st)) data size'
      else if a = 0xEA000024 then read_reg (hexData (PRIO_REG_OHCI1 st)) data size'
      else if a = 0xEA000028 then read_reg (hexData (PRIO_REG_EHCI0 st)) data size'
      else if a = 0xEA00002C then read_reg (hexData (PRIO_REG_EHCI1 st)) data size'
      else if a = 0xEA000038 then read_reg (hexData (PRIO_REG_ENET st)) data size'
      else if a = 0xEA00003C then read_reg (hexData (PRIO_REG_XMA st)) data size'
      else if a = 0xEA000040 then read_reg (hexData (PRIO_REG_AUDIO st)) data size'
      else if a = 0xEA000044 then read_reg (hexData (PRIO_REG_SFCX st)) data size'
      else Some (data, [LOG_ERROR ''Unknown reg being read: 0x{:X}'']))"

text \<open>
  The loop over the attached devices of \<^verbatim>\<open>PCIBridge::Read\<close>: the first device whose
  \<^verbatim>\<open>IsAddressMappedInBAR\<close> accepts the address serves the read; with none, the buffer
  is filled with \<open>0xFF\<close> and the result is \<^verbatim>\<open>false\<close>.
\<close>

fun devices_Read ::
  "'d PCIDevice_ops \<Rightarrow> (string \<times> 'd) list \<Rightarrow> u64 \<Rightarrow> u8 list \<Rightarrow> nat
     \<Rightarrow> ((string \<times> 'd) list \<times> u8 list \<times> log_entry list \<times> bool) option" where
  "devices_Read ops [] a data size' =
     map_option (\<lambda>d. ([], d, [], False)) (memset_out 0xFF data size')"
| "devices_Read ops ((name, dev) # rest) a data size' =
     (if IsAddressMappedInBAR ops dev (ucast a)
      then map_option (\<lambda>(dev', d, lg). ((name, dev') # rest, d, lg, True))
             (dev_Read ops dev a data size')
      else map_option (\<lambda>(rest', r). ((name, dev) # rest', r))
             (devices_Read ops rest a data size'))"

text \<open>\<^verbatim>\<open>bool PCIBridge::Read(u64 readAddress, u8 *data, u64 size)\<close>\<close>

definition PCIBridge_Read ::
  "'d PCIDevice_ops \<Rightarrow> 'd PCIBridge \<Rightarrow> u64 \<Rightarrow> u8 list \<Rightarrow> nat
     \<Rightarrow> ('d PCIBridge \<times> u8 list \<times> log_entry list \<times> bool) option" where
  "PCIBridge_Read ops br readAddress data size' =
     (if PCI_BRIDGE_BASE_ADDRESS \<le> readAddress \<and> readAddress \<le> PCI_BRIDGE_BASE_END_ADDRESS
      then map_option (\<lambda>(d, lg). (br, d, lg, True))
             (own_Read (pciBridgeState br) readAddress data size')
      else map_option (\<lambda>(devs, r). (br\<lparr>connectedPCIDevices := devs\<rparr>, r))
             (devices_Read ops (connectedPCIDevices br) readAddress data size'))"

subsection \<open>Write\<close>

text \<open>
  \<^verbatim>\<open>memcpy(&reg, data, sizeof(reg) > size ? size : sizeof(reg))\<close> for a \<^verbatim>\<open>u32\<close>
  register.
\<close>

definition write_reg :: "u32 \<Rightarrow> u8 list \<Rightarrow> nat \<Rightarrow> u32 option" where
  "write_reg reg data size' = memcpy_to_u32 reg data (if 4 > size' then size' else 4)"

text \<open>One \<^verbatim>\<open>case\<close> of a priority register: the raw word, then the four derived fields.\<close>

definition write_prio ::
  "PRIO_REG \<Rightarrow> u8 list \<Rightarrow> nat \<Rightarrow> bool \<Rightarrow> bool \<Rightarrow> u8 \<Rightarrow> u8 \<Rightarrow> PRIO_REG option" where
  "write_prio reg data size' enabled latched' cpu irq =
     map_option
       (\<lambda>h. \<lparr> hexData = h, intEnabled = enabled, latched = latched',
              targetCPU = cpu, cpuIRQ = irq \<rparr>)
       (write_reg (hexData reg) data size')"

text \<open>The \<^verbatim>\<open>switch (writeAddress)\<close> of \<^verbatim>\<open>PCIBridge::Write\<close>.\<close>

definition own_Write ::
  "PCI_BRIDGE_STATE \<Rightarrow> u64 \<Rightarrow> u8 list \<Rightarrow> nat \<Rightarrow> bool \<Rightarrow> bool \<Rightarrow> u8 \<Rightarrow> u8
     \<Rightarrow> (PCI_BRIDGE_STATE \<times> log_entry list) option" where
  "own_Write st a data size' enabled latched' cpu irq =
     (if a = 0xEA000000 then
        map_option (\<lambda>r. (st\<lparr>REG_EA000000 := r\<rparr>, [])) (write_reg (REG_EA000000 st) data size')
      else if a = 0xEA000004 then
        map_option (\<lambda>r. (st\<lparr>REG_EA000004 := r\<rparr>, [])) (write_reg (REG_EA000004 st) data size')
      else if a = 0xEA00000C then
        map_option (\<lambda>r. (st\<lparr>REG_EA00000C := r\<rparr>, [])) (write_reg (REG_EA00000C st) data size')
      else if a = 0xEA000010 then
        map_option (\<lambda>r. (st\<lparr>PRIO_REG_CLCK := r\<rparr>, []))
          (write_prio (PRIO_REG_CLCK st) data size' enabled latched' cpu irq)
      else if a = 0xEA000014 then
        map_option (\<lambda>r. (st\<lparr>PRIO_REG_ODD := r\<rparr>, []))
          (write_prio (PRIO_REG_ODD st) data size' enabled latched' cpu irq)
      else if a = 0xEA000018 then
        map_option (\<lambda>r. (st\<lparr>PRIO_REG_HDD := r\<rparr>, []))
          (write_prio (PRIO_REG_HDD st) data size' enabled latched' cpu irq)
      else if a = 0xEA00001C then
        map_option (\<lambda>r. (st\<lparr>PRIO_REG_SMM := r\<rparr>, []))
          (write_prio (PRIO_REG_SMM st) data size' enabled latched' cpu irq)
      else if a = 0xEA000020 then
        map_option (\<lambda>r. (st\<lparr>PRIO_REG_OHCI0 := r\<rparr>, []))
          (write_prio (PRIO_REG_OHCI0 st) data size' enabled latched' cpu irq)
      else if a = 0xEA000024 then
        map_option (\<lambda>r. (st\<lparr>PRIO_REG_OHCI1 := r\<rparr>, []))
          (write_prio (PRIO_REG_OHCI1 st) data size' enabled latched' cpu irq)
      else if a = 0xEA000028 then
        map_option (\<lambda>r. (st\<lparr>PRIO_REG_EHCI0 := r\<rparr>, []))
          (write_prio (PRIO_REG_EHCI0 st) data size' enabled latched' cpu irq)
      else if a = 0xEA00002C then
        map_option (\<lambda>r. (st\<lparr>PRIO_REG_EHCI1 := r\<rparr>, []))
          (write_prio (PRIO_REG_EHCI1 st) data size' enabled latched' cpu irq)
      else if a = 0xEA000038 then
        map_option (\<lambda>r. (st\<lparr>PRIO_REG_ENET := r\<rparr>, []))
          (write_prio (PRIO_REG_ENET st) data size' enabled latched' cpu irq)
      else if a = 0xEA00003C then
        map_option (\<lambda>r. (st\<lparr>PRIO_REG_XMA := r\<rparr>, []))
          (write_prio (PRIO_REG_XMA st) data size' enabled latched' cpu irq)
      else if a = 0xEA000040 then
        map_option (\<lambda>r. (st\<lparr>PRIO_REG_AUDIO := r\<rparr>, []))
          (write_prio (PRIO_REG_AUDIO st) data size' enabled latched' cpu irq)
      else if a = 0xEA000044 then
        map_option (\<lambda>r. (st\<lparr>PRIO_REG_SFCX := r\<rparr>, []))
          (write_prio (PRIO_REG_SFCX st) data size' enabled latched' cpu irq)
      else Some (st, [LOG_ERROR ''Unknown reg being written: 0x{:X}, 0x{:X}'']))"

fun devices_Write ::
  "'d PCIDevice_ops \<Rightarrow> (string \<times> 'd) list \<Rightarrow> u64 \<Rightarrow> u8 list \<Rightarrow> nat
     \<Rightarrow> ((string \<times> 'd) list \<times> log_entry list \<times> bool) option" where
  "devices_Write ops [] a data size' = Some ([], [], False)"
| "devices_Write ops ((name, dev) # rest) a data size' =
     (if IsAddressMappedInBAR ops dev (ucast a)
      then map_option (\<lambda>(dev', lg). ((name, dev') # rest, lg, True))
             (dev_Write ops dev a data size')
      else map_option (\<lambda>(rest', r). ((name, dev) # rest', r))
             (devices_Write ops rest a data size'))"

text \<open>
  \<^verbatim>\<open>bool PCIBridge::Write(u64 writeAddress, const u8 *data, u64 size)\<close>. The four
  locals \<^verbatim>\<open>enabled\<close>, \<^verbatim>\<open>latched\<close>, \<^verbatim>\<open>targetCPU\<close>, \<^verbatim>\<open>cpuIRQ\<close> are computed from
  \<^verbatim>\<open>tmp\<close> first; the conversion to \<^verbatim>\<open>bool\<close> tests for a non-zero value, the
  conversion to \<^verbatim>\<open>u8\<close> keeps the low byte.
\<close>

definition PCIBridge_Write ::
  "'d PCIDevice_ops \<Rightarrow> 'd PCIBridge \<Rightarrow> u64 \<Rightarrow> u8 list \<Rightarrow> nat
     \<Rightarrow> ('d PCIBridge \<times> log_entry list \<times> bool) option" where
  "PCIBridge_Write ops br writeAddress data size' =
     (case memcpy_to_tmp data (if 8 > size' then size' else 8) of
        None \<Rightarrow> None
      | Some tmp \<Rightarrow>
          (let enabled = (drop_bit 20 (tmp AND 0x00800000) \<noteq> 0);
               latched' = (drop_bit 20 (tmp AND 0x00200000) \<noteq> 0);
               cpu = (ucast (drop_bit 8 (tmp AND 0x00003F00)) :: u8);
               irq = (ucast (push_bit 2 (tmp AND 0x0000003F)) :: u8)
           in if PCI_BRIDGE_BASE_ADDRESS \<le> writeAddress
                 \<and> writeAddress \<le> PCI_BRIDGE_BASE_END_ADDRESS
              then map_option (\<lambda>(st, lg). (br\<lparr>pciBridgeState := st\<rparr>, lg, True))
                     (own_Write (pciBridgeState br) writeAddress data size'
                        enabled latched' cpu irq)
              else map_option (\<lambda>(devs, r). (br\<lparr>connectedPCIDevices := devs\<rparr>, r))
                     (devices_Write ops (connectedPCIDevices br) writeAddress data size')))"

subsection \<open>Configuration space\<close>

text \<open>
  \<^verbatim>\<open>PCIE_CONFIG_ADDR\<close> is a bit-field view of the 32-bit configuration address. Its
  declaration (the position of each field) is in a header that is not at hand, so the
  operations below take the view \<open>configAddr\<close> of \<^verbatim>\<open>static_cast<u32>(address)\<close> as
  an argument beside the address itself. The spec gives the fields as
  \<open>{busNum:8, devNum:5, funcNum:3, regOffset:8}\<close>.
\<close>

record PCIE_CONFIG_ADDR =
  busNum :: u8
  devNum :: u8
  functNum :: u8
  regOffset :: u8

text \<open>
  The \<^verbatim>\<open>switch (configAddr.devNum)\<close> that ConfigRead and ConfigWrite share:
  \<^verbatim>\<open>currentDevName\<close>, or \<open>None\<close> for the \<^verbatim>\<open>default\<close> branch. For device numbers 4
  and 5 a function number above 1 leaves the name empty.
\<close>

definition currentDevName :: "PCIE_CONFIG_ADDR \<Rightarrow> string option" where
  "currentDevName c =
     (if devNum c = 0x0 then Some ''XMA''
      else if devNum c = 0x1 then Some ''CDROM''
      else if devNum c = 0x2 then Some ''HDD''
      else if devNum c = 0x4 then
        Some (if functNum c = 0 then ''OHCI0'' else if functNum c = 1 then ''EHCI0'' else [])
      else if devNum c = 0x5 then
        Some (if functNum c = 0 then ''OHCI1'' else if functNum c = 1 then ''EHCI1'' else [])
      else if devNum c = 0x7 then Some ''ETHERNET''
      else if devNum c = 0x8 then Some ''SFCX''
      else if devNum c = 0x9 then Some ''AUDIOCTRLR''
      else if devNum c = 0xA then Some ''SMC''
      else if devNum c = 0xF then Some ''5841''
      else None)"

text \<open>\<^verbatim>\<open>memcpy(&buf[pos], data, size)\<close> into an array \<open>buf\<close> of bytes.\<close>

definition memcpy_into :: "u8 list \<Rightarrow> nat \<Rightarrow> u8 list \<Rightarrow> nat \<Rightarrow> u8 list option" where
  "memcpy_into buf pos src size' =
     (if pos + size' \<le> length buf \<and> size' \<le> length src
      then Some (take pos buf @ take size' src @ drop (pos + size') buf) else None)"

text \<open>\<^verbatim>\<open>memcpy(data, &buf[pos], size)\<close> out of an array \<open>buf\<close> of bytes.\<close>

definition memcpy_from :: "u8 list \<Rightarrow> nat \<Rightarrow> u8 list \<Rightarrow> nat \<Rightarrow> u8 list option" where
  "memcpy_from buf pos data size' =
     (if pos + size' \<le> length buf then memcpy_out (drop pos buf) data size' else None)"

text \<open>The loop \<^verbatim>\<open>for (auto &[name, dev] : connectedPCIDevices) if (name == currentDevName)\<close>.\<close>

fun devices_ConfigRead ::
  "'d PCIDevice_ops \<Rightarrow> (string \<times> 'd) list \<Rightarrow> string \<Rightarrow> u64 \<Rightarrow> u8 list \<Rightarrow> nat
     \<Rightarrow> (u8 list \<times> log_entry list \<times> bool) option" where
  "devices_ConfigRead ops [] nm a data size' =
     map_option (\<lambda>d. (d, [LOG_ERROR ''Read to unimplemented device: {}''], False))
       (memset_out 0xFF data size')"
| "devices_ConfigRead ops ((name, dev) # rest) nm a data size' =
     (if name = nm
      then map_option
             (\<lambda>(d, lg). (d, LOG_TRACE ''Config read, device: {} offset = 0x{:X}'' # lg, True))
             (dev_ConfigRead ops dev a data size')
      else devices_ConfigRead ops rest nm a data size')"

text \<open>\<^verbatim>\<open>bool PCIBridge::ConfigRead(u64 readAddress, u8 *data, u64 size)\<close>\<close>

definition PCIBridge_ConfigRead ::
  "'d PCIDevice_ops \<Rightarrow> 'd PCIBridge \<Rightarrow> PCIE_CONFIG_ADDR \<Rightarrow> u64 \<Rightarrow> u8 list \<Rightarrow> nat
     \<Rightarrow> (u8 list \<times> log_entry list \<times> bool) option" where
  "PCIBridge_ConfigRead ops br configAddr readAddress data size' =
     (if busNum configAddr = 0 \<and> devNum configAddr = 0
      then map_option (\<lambda>d. (d, [], True))
             (memcpy_from (pciBridgeConfig br) (unat (regOffset configAddr)) data size')
      else case currentDevName configAddr of
             None \<Rightarrow>
               Some (data,
                 [LOG_ERROR ''Config Space Read: Unknown device accessed: Dev 0x{:X}, Reg 0x{:X}''],
                 True)
           | Some nm \<Rightarrow>
               devices_ConfigRead ops (connectedPCIDevices br) nm readAddress data size')"

fun devices_ConfigWrite ::
  "'d PCIDevice_ops \<Rightarrow> (string \<times> 'd) list \<Rightarrow> string \<Rightarrow> u64 \<Rightarrow> u8 list \<Rightarrow> nat
     \<Rightarrow> ((string \<times> 'd) list \<times> log_entry list \<times> bool) option" where
  "devices_ConfigWrite ops [] nm a data size' =
     Some ([], [LOG_ERROR ''Config write to unimplemented device {}''], False)"
| "devices_ConfigWrite ops ((name, dev) # rest) nm a data size' =
     (if name = nm
      then map_option
             (\<lambda>(dev', lg). ((name, dev') # rest, LOG_TRACE ''Config write to {}+0x{:X}'' # lg, True))
             (dev_ConfigWrite ops dev a data size')
      else map_option (\<lambda>(rest', r). ((name, dev) # rest', r))
             (devices_ConfigWrite ops rest nm a data size'))"

text \<open>
  \<^verbatim>\<open>bool PCIBridge::ConfigWrite(u64 writeAddress, const u8 *data, u64 size)\<close>. In the
  \<^verbatim>\<open>default\<close> branch the value is copied into a local \<^verbatim>\<open>u64\<close> for the log line.
\<close>

definition PCIBridge_ConfigWrite ::
  "'d PCIDevice_ops \<Rightarrow> 'd PCIBridge \<Rightarrow> PCIE_CONFIG_ADDR \<Rightarrow> u64 \<Rightarrow> u8 list \<Rightarrow> nat
     \<Rightarrow> ('d PCIBridge \<times> log_entry list \<times> bool) option" where
  "PCIBridge_ConfigWrite ops br configAddr writeAddress data size' =
     (if busNum configAddr = 0 \<and> devNum configAddr = 0
      then map_option (\<lambda>cfg. (br\<lparr>pciBridgeConfig := cfg\<rparr>, [], True))
             (memcpy_into (pciBridgeConfig br) (unat (regOffset configAddr)) data size')
      else case currentDevName configAddr of
             None \<Rightarrow>
               map_option
                 (\<lambda>value. (br,
                    [LOG_ERROR ''Config Space Write: Unknown device accessed: Dev 0x{:X} Func 0x{:X}Reg 0x{:X} data = 0x{:X}''],
                    True))
                 (memcpy_to_tmp data size')
           | Some nm \<Rightarrow>
               map_option (\<lambda>(devs, r). (br\<lparr>connectedPCIDevices := devs\<rparr>, r))
                 (devices_ConfigWrite ops (connectedPCIDevices br) nm writeAddress data size'))"

section \<open>Core/PCI/Devices/SMC/SMC.cpp\<close>

subsection \<open>Constants\<close>

definition UART_BYTE_OUT_REG :: u8 where "UART_BYTE_OUT_REG = 0x10"
definition UART_BYTE_IN_REG :: u8 where "UART_BYTE_IN_REG = 0x14"
definition UART_STATUS_REG :: u8 where "UART_STATUS_REG = 0x18"
definition UART_CONFIG_REG :: u8 where "UART_CONFIG_REG = 0x1C"
definition SMI_INT_STATUS_REG :: u8 where "SMI_INT_STATUS_REG = 0x50"
definition SMI_INT_ACK_REG :: u8 where "SMI_INT_ACK_REG = 0x58"
definition SMI_INT_ENABLED_REG :: u8 where "SMI_INT_ENABLED_REG = 0x5C"
definition CLCK_INT_ENABLED_REG :: u8 where "CLCK_INT_ENABLED_REG = 0x64"
definition CLCK_INT_STATUS_REG :: u8 where "CLCK_INT_STATUS_REG = 0x6C"
definition FIFO_IN_DATA_REG :: u8 where "FIFO_IN_DATA_REG = 0x80"
definition FIFO_IN_STATUS_REG :: u8 where "FIFO_IN_STATUS_REG = 0x84"
definition FIFO_OUT_DATA_REG :: u8 where "FIFO_OUT_DATA_REG = 0x90"
definition FIFO_OUT_STATUS_REG :: u8 where "FIFO_OUT_STATUS_REG = 0x94"

definition FIFO_STATUS_READY :: u32 where "FIFO_STATUS_READY = 0x4"
definition FIFO_STATUS_BUSY :: u32 where "FIFO_STATUS_BUSY = 0x0"
definition SMI_INT_ENABLED :: u32 where "SMI_INT_ENABLED = 0xC"
definition SMI_INT_PENDING :: u32 where "SMI_INT_PENDING = 0x10000000"

subsection \<open>The UART backend\<close>

text \<open>
  The UART backend behind \<^verbatim>\<open>smcCoreState.uartHandle\<close> is an object of an abstract
  class; its state has some type \<open>'u\<close> and its methods are the fields of a table.
  \<^verbatim>\<open>Read()\<close> returns the byte and leaves the flag \<^verbatim>\<open>retVal\<close> in the backend.
\<close>

record 'u UART_ops =
  uart_Read :: "'u \<Rightarrow> u8 \<times> 'u"
  uart_retVal :: "'u \<Rightarrow> bool"
  uart_ReadStatus :: "'u \<Rightarrow> u32 \<times> 'u"
  uart_SetupNeeded :: "'u \<Rightarrow> bool"
  uart_Init :: "'u \<Rightarrow> u32 \<Rightarrow> 'u"
  uart_Write :: "'u \<Rightarrow> u8 \<Rightarrow> 'u"

text \<open>
  \<^verbatim>\<open>smcCoreState.currentUARTSystem\<close>, a hash of the configured name; the switch of
  \<^verbatim>\<open>setupUART\<close> has the labels below (\<^verbatim>\<open>vcom\<close> on Windows only) and a default.
\<close>

datatype uart_system = UART_null | UART_print | UART_socket | UART_vcom | UART_other

subsection \<open>Device state\<close>

text \<open>
  Modelled from the spec: the declarations of \<^verbatim>\<open>smcPCIState\<close> and
  \<^verbatim>\<open>smcCoreState\<close> are in a header that is not at hand. The spec gives the registers
  as 32-bit words, the FIFO as a 16-byte buffer with a cursor, and the HANA register
  file as 256 32-bit entries, indexed here by a byte. The cursor \<open>fifoBufferPos\<close> is
  a number: every integer type of C++ holds the values it takes below (0 to 20).
  \<open>pciConfigSpace\<close> is the 256-byte \<^verbatim>\<open>pciConfigSpace.data\<close> and \<open>pciDevSizes\<close> the six
  BAR sizes of the \<^verbatim>\<open>PCIDevice\<close> base class. \<open>hanaState\<close> is the register image the
  thread works on.
\<close>

record 'u SMC =
  uartOutReg :: u32
  uartInReg :: u32
  uartStatusReg :: u32
  uartConfigReg :: u32
  smiIntPendingReg :: u32
  smiIntAckReg :: u32
  smiIntEnabledReg :: u32
  clockIntEnabledReg :: u32
  clockIntStatusReg :: u32
  fifoInStatusReg :: u32
  fifoOutStatusReg :: u32
  currentUARTSystem :: uart_system
  currAVPackType :: u8
  currPowerOnReason :: u8
  currTrayState :: u8
  fifoDataBuffer :: "u8 list"
  fifoBufferPos :: nat
  uartHandle :: 'u
  pciConfigSpace :: "u8 list"
  pciDevSizes :: "u32 list"
  hanaState :: "u8 \<Rightarrow> u32"

subsection \<open>setupUART\<close>

text \<open>
  \<^verbatim>\<open>void SMC::setupUART(u32 uartConfig)\<close>: every branch ends in
  \<^verbatim>\<open>uartHandle->Init(config)\<close>; the default branch logs first.
\<close>

definition setupUART :: "'u UART_ops \<Rightarrow> 'u SMC \<Rightarrow> u32 \<Rightarrow> 'u SMC \<times> log_entry list" where
  "setupUART uo s uartConfig =
     (s\<lparr>uartHandle := uart_Init uo (uartHandle s) uartConfig\<rparr>,
      LOG_INFO ''Initializing...'' #
      (case currentUARTSystem s of
         UART_other \<Rightarrow> [LOG_CRITICAL ''Invalid UART type! Defaulting to null.'']
       | _ \<Rightarrow> []))"

subsection \<open>Read\<close>

text \<open>\<^verbatim>\<open>memcpy(data, &reg, size)\<close> with the device unchanged and nothing logged.\<close>

definition smc_read_reg ::
  "'u SMC \<Rightarrow> u32 \<Rightarrow> u8 list \<Rightarrow> nat \<Rightarrow> ('u SMC \<times> u8 list \<times> log_entry list) option" where
  "smc_read_reg s reg data size' = map_option (\<lambda>d. (s, d, [])) (memcpy_from_u32 reg data size')"

text \<open>
  \<^verbatim>\<open>void SMC::Read(u64 readAddress, u8 *data, u64 size)\<close>: the device after the
  read, the caller's buffer after it, and the log. The FIFO case copies from
  \<^verbatim>\<open>&fifoDataBuffer[fifoBufferPos]\<close> with no check of the cursor.
\<close>

definition SMC_Read ::
  "'u UART_ops \<Rightarrow> 'u SMC \<Rightarrow> u64 \<Rightarrow> u8 list \<Rightarrow> nat
     \<Rightarrow> ('u SMC \<times> u8 list \<times> log_entry list) option" where
  "SMC_Read uo s readAddress data size' =
     (let regOffset = (ucast readAddress :: u8) in
      if regOffset = UART_BYTE_OUT_REG then
        (let (b, u) = uart_Read uo (uartHandle s);
             s1 = s\<lparr>uartOutReg := ucast b, uartHandle := u\<rparr>
         in if uart_retVal uo u then smc_read_reg s1 (uartOutReg s1) data size'
            else Some (s1, data, []))
      else if regOffset = UART_STATUS_REG then
        (let (st, u) = uart_ReadStatus uo (uartHandle s);
             s1 = s\<lparr>uartStatusReg := st, uartHandle := u\<rparr>;
             (s2, lg) = (if uart_SetupNeeded uo u then setupUART uo s1 0x1E6 else (s1, []))
         in map_option (\<lambda>d. (s2, d, lg)) (memcpy_from_u32 (uartStatusReg s2) data size'))
      else if regOffset = UART_CONFIG_REG then smc_read_reg s (uartConfigReg s) data size'
      else if regOffset = SMI_INT_STATUS_REG then smc_read_reg s (smiIntPendingReg s) data size'
      else if regOffset = SMI_INT_ACK_REG then smc_read_reg s (smiIntAckReg s) data size'
      else if regOffset = SMI_INT_ENABLED_REG then smc_read_reg s (smiIntEnabledReg s) data size'
      else if regOffset = FIFO_IN_STATUS_REG then smc_read_reg s (fifoInStatusReg s) data size'
      else if regOffset = FIFO_OUT_STATUS_REG then smc_read_reg s (fifoOutStatusReg s) data size'
      else if regOffset = FIFO_OUT_DATA_REG then
        map_option (\<lambda>d. (s\<lparr>fifoBufferPos := fifoBufferPos s + 4\<rparr>, d, []))
          (memcpy_from (fifoDataBuffer s) (fifoBufferPos s) data size')
      else Some (s, data, [LOG_ERROR ''Unknown register being read, offset 0x{:X}'']))"

text \<open>\<^verbatim>\<open>void SMC::ConfigRead(u64 readAddress, u8 *data, u64 size)\<close>\<close>

definition SMC_ConfigRead ::
  "'u SMC \<Rightarrow> u64 \<Rightarrow> u8 list \<Rightarrow> nat \<Rightarrow> (u8 list \<times> log_entry list) option" where
  "SMC_ConfigRead s readAddress data size' =
     map_option (\<lambda>d. (d, [LOG_INFO ''ConfigRead: Address = 0x{:X}, size = 0x{:X}.'']))
       (memcpy_from (pciConfigSpace s) (unat (ucast readAddress :: u8)) data size')"

subsection \<open>Write\<close>

text \<open>\<^verbatim>\<open>memcpy(&reg, data, size)\<close> into a 32-bit register, with the update to store it.\<close>

definition smc_write_reg ::
  "u32 \<Rightarrow> u8 list \<Rightarrow> nat \<Rightarrow> (u32 \<Rightarrow> 'u SMC) \<Rightarrow> ('u SMC \<times> log_entry list) option" where
  "smc_write_reg reg data size' store =
     map_option (\<lambda>r. (store r, [])) (memcpy_to_u32 reg data size')"

text \<open>
  \<^verbatim>\<open>void SMC::Write(u64 writeAddress, const u8 *data, u64 size)\<close>. The FIFO case
  copies to \<^verbatim>\<open>&fifoDataBuffer[fifoBufferPos]\<close> with no check of the cursor.
\<close>

definition SMC_Write ::
  "'u UART_ops \<Rightarrow> 'u SMC \<Rightarrow> u64 \<Rightarrow> u8 list \<Rightarrow> nat \<Rightarrow> ('u SMC \<times> log_entry list) option" where
  "SMC_Write uo s writeAddress data size' =
     (let regOffset = (ucast writeAddress :: u8) in
      if regOffset = UART_BYTE_IN_REG then
        (case (memcpy_to_u32 (uartInReg s) data size', data) of
           (Some r, b # bs) \<Rightarrow>
             Some (s\<lparr>uartInReg := r, uartHandle := uart_Write uo (uartHandle s) b\<rparr>, [])
         | _ \<Rightarrow> None)
      else if regOffset = UART_CONFIG_REG then
        (case memcpy_to_u32 (uartConfigReg s) data size' of
           None \<Rightarrow> None
         | Some r \<Rightarrow>
             (let s1 = s\<lparr>uartConfigReg := r\<rparr>
              in if uart_SetupNeeded uo (uartHandle s1)
                 then map_option (\<lambda>tmp. setupUART uo s1 (ucast tmp)) (memcpy_to_tmp data size')
                 else Some (s1, [])))
      else if regOffset = SMI_INT_STATUS_REG then
        smc_write_reg (smiIntPendingReg s) data size' (\<lambda>r. s\<lparr>smiIntPendingReg := r\<rparr>)
      else if regOffset = SMI_INT_ACK_REG then
        smc_write_reg (smiIntAckReg s) data size' (\<lambda>r. s\<lparr>smiIntAckReg := r\<rparr>)
      else if regOffset = SMI_INT_ENABLED_REG then
        smc_write_reg (smiIntEnabledReg s) data size' (\<lambda>r. s\<lparr>smiIntEnabledReg := r\<rparr>)
      else if regOffset = CLCK_INT_ENABLED_REG then
        smc_write_reg (clockIntEnabledReg s) data size' (\<lambda>r. s\<lparr>clockIntEnabledReg := r\<rparr>)
      else if regOffset = CLCK_INT_STATUS_REG then
        smc_write_reg (clockIntStatusReg s) data size' (\<lambda>r. s\<lparr>clockIntStatusReg := r\<rparr>)
      else if regOffset = FIFO_IN_STATUS_REG then
        smc_write_reg (fifoInStatusReg s) data size'
          (\<lambda>r. if r = FIFO_STATUS_READY
               then s\<lparr>fifoInStatusReg := r, fifoDataBuffer := replicate 16 0, fifoBufferPos := 0\<rparr>
               else s\<lparr>fifoInStatusReg := r\<rparr>)
      else if regOffset = FIFO_OUT_STATUS_REG then
        smc_write_reg (fifoOutStatusReg s) data size'
          (\<lambda>r. if r = FIFO_STATUS_READY
               then s\<lparr>fifoOutStatusReg := r, fifoBufferPos := 0\<rparr>
               else s\<lparr>fifoOutStatusReg := r\<rparr>)
      else if regOffset = FIFO_IN_DATA_REG then
        map_option
          (\<lambda>buf. (s\<lparr>fifoDataBuffer := buf, fifoBufferPos := fifoBufferPos s + 4\<rparr>, []))
          (memcpy_into (fifoDataBuffer s) (fifoBufferPos s) data size')
      else
        map_option
          (\<lambda>tmp. (s, [LOG_ERROR ''Unknown register being written, offset 0x{:X}, data 0x{:X}'']))
          (memcpy_to_tmp data size'))"

subsection \<open>ConfigWrite\<close>

text \<open>
  The loop of the BAR size discovery, entered with \<open>idx = 2\<close> and \<open>x = 2\<close>:
  \<^verbatim>\<open>for (int idx = 2; idx < 31; idx++) { tmp &= ~x; x <<= 1; if (x >= size) break; }\<close>
  It returns \<open>tmp\<close> as the loop leaves it.
\<close>

function bar_scan :: "nat \<Rightarrow> u64 \<Rightarrow> u64 \<Rightarrow> u64 \<Rightarrow> u64" where
  "bar_scan idx tmp x sz =
     (if idx < 31
      then (let tmp1 = tmp AND NOT x; x1 = push_bit 1 x
            in if x1 \<ge> sz then tmp1 else bar_scan (idx + 1) tmp1 x1 sz)
      else tmp)"
  by pat_completeness auto
termination
  by (relation "measure (\<lambda>(idx, tmp, x, sz). 31 - idx)") auto

declare bar_scan.simps [simp del]

text \<open>
  The value \<^verbatim>\<open>tmp\<close> that \<^verbatim>\<open>SMC::ConfigWrite\<close> stores, from the value written and the
  register offset. \<^verbatim>\<open>pciDevSizes\<close> has six entries; the offsets \<open>0x28\<close> to \<open>0x33\<close>
  index it at 6, 7 or 8, outside the array, where the model has no value.
\<close>

definition config_value :: "u32 list \<Rightarrow> u8 \<Rightarrow> u64 \<Rightarrow> u64 option" where
  "config_value devSizes off tmp =
     (if off \<ge> 0x10 \<and> off < 0x34
      then (let regOffset = unat (drop_bit 2 (off - 0x10))
            in if regOffset < length devSizes
               then (let sz = devSizes ! regOffset;
                         tmp1 = (if sz \<noteq> 0 \<and> tmp = 0xFFFFFFFF
                                 then bar_scan 2 tmp 2 (ucast sz) AND NOT 3 else tmp)
                     in Some (if off = 0x30 then 0 else tmp1))
               else None)
      else Some tmp)"

text \<open>\<^verbatim>\<open>void SMC::ConfigWrite(u64 writeAddress, const u8 *data, u64 size)\<close>\<close>

definition SMC_ConfigWrite ::
  "'u SMC \<Rightarrow> u64 \<Rightarrow> u8 list \<Rightarrow> nat \<Rightarrow> ('u SMC \<times> log_entry list) option" where
  "SMC_ConfigWrite s writeAddress data size' =
     (case memcpy_to_tmp data size' of
        None \<Rightarrow> None
      | Some tmp0 \<Rightarrow>
          (case config_value (pciDevSizes s) (ucast writeAddress) tmp0 of
             None \<Rightarrow> None
           | Some tmp \<Rightarrow>
               map_option
                 (\<lambda>cfg. (s\<lparr>pciConfigSpace := cfg\<rparr>,
                    [LOG_DEBUG ''ConfigWrite: Address = 0x{:X}, Data = 0x{:X}, size = 0x{:X}.'']))
                 (memcpy_into (pciConfigSpace s) (unat (ucast writeAddress :: u8))
                    (le_bytes 8 tmp) size')))"

subsection \<open>The FIFO command block of smcMainThread\<close>

text \<open>
  The thread switches on \<^verbatim>\<open>fifoDataBuffer[0]\<close> against the command identifiers
  \<^verbatim>\<open>SMC_PWRON_TYPE\<close>, ..., \<^verbatim>\<open>SMC_SET_9F_INT\<close>. Their numeric values are declared in a
  header that is not at hand; as case labels of one switch they are pairwise distinct.
  The operations below take the map \<open>cmd_of\<close> from a byte to the label it equals
  (\<open>SMC_UNKNOWN\<close> for the \<^verbatim>\<open>default\<close> branch). Where a branch stores its own
  identifier in byte 0, it stores the byte that was matched.
\<close>

datatype SMC_FIFO_CMD =
    SMC_PWRON_TYPE | SMC_QUERY_RTC | SMC_QUERY_TEMP_SENS | SMC_QUERY_TRAY_STATE
  | SMC_QUERY_AVPACK | SMC_I2C_READ_WRITE | SMC_QUERY_VERSION | SMC_FIFO_TEST
  | SMC_QUERY_IR_ADDRESS | SMC_QUERY_TILT_SENSOR | SMC_READ_82_INT | SMC_READ_8E_INT
  | SMC_SET_STANDBY | SMC_SET_TIME | SMC_SET_FAN_ALGORITHM | SMC_SET_FAN_SPEED_CPU
  | SMC_SET_DVD_TRAY | SMC_SET_POWER_LED | SMC_SET_AUDIO_MUTE | SMC_ARGON_RELATED
  | SMC_SET_FAN_SPEED_GPU | SMC_SET_IR_ADDRESS | SMC_SET_DVD_TRAY_SECURE | SMC_SET_FP_LEDS
  | SMC_SET_RTC_WAKE | SMC_ANA_RELATED | SMC_SET_ASYNC_OPERATION | SMC_SET_82_INT
  | SMC_SET_9F_INT | SMC_UNKNOWN

text \<open>
  What the command block does besides changing the device, in program order: stores to
  the two status registers and the pending register, the store to the global
  \<^verbatim>\<open>XeRunning\<close>, the calls \<^verbatim>\<open>XeMain::Reboot(reason)\<close> and
  \<^verbatim>\<open>pciBridge->RouteInterrupt(prio)\<close>, and log lines.
\<close>

datatype smc_event =
    Set_fifoOutStatusReg u32
  | Set_fifoInStatusReg u32
  | Set_smiIntPendingReg u32
  | Set_XeRunning bool
  | Call_Reboot u8
  | Call_RouteInterrupt irq_prio
  | SMC_Log log_entry

fun route_calls :: "smc_event list \<Rightarrow> irq_prio list" where
  "route_calls [] = []"
| "route_calls (Call_RouteInterrupt p # es) = p # route_calls es"
| "route_calls (e # es) = route_calls es"

text \<open>The events of a list that are not log lines, in order.\<close>

fun non_log :: "smc_event list \<Rightarrow> smc_event list" where
  "non_log [] = []"
| "non_log (SMC_Log l # es) = non_log es"
| "non_log (e # es) = e # non_log es"

text \<open>
  The inner \<^verbatim>\<open>switch (fifoDataBuffer[1])\<close> of \<^verbatim>\<open>SMC_I2C_READ_WRITE\<close>: the buffer and
  the HANA registers after it, and the log. \<open>b0\<close> is the command byte. In the HANA
  read the four stores happen one after the other, each reading
  \<^verbatim>\<open>hanaState[fifoDataBuffer[6]]\<close> from the buffer as the stores before it left it.
\<close>

definition i2c_read_write ::
  "u8 \<Rightarrow> u8 list \<Rightarrow> (u8 \<Rightarrow> u32) \<Rightarrow> u8 list \<times> (u8 \<Rightarrow> u32) \<times> log_entry list" where
  "i2c_read_write b0 buf hana =
     (let sub = buf ! 1 in
      if sub = 0x3 then
        (buf[0 := b0, 1 := 0], hana, [LOG_INFO ''[I2C] Requested DDC Lock.''])
      else if sub = 0x5 then
        (buf[0 := b0, 1 := 0], hana, [LOG_INFO ''[I2C] Requested DDC Unlock.''])
      else if sub = 0x10 then
        (let b = buf[0 := b0, 1 := 0]
         in if b ! 5 = 0xF0 then
              (let b4 = b[4 := ucast (hana (b ! 6) AND 0xFF)];
                   b5 = b4[5 := ucast (drop_bit 8 (hana (b4 ! 6)) AND 0xFF)];
                   b6 = b5[6 := ucast (drop_bit 16 (hana (b5 ! 6)) AND 0xFF)];
                   b7 = b6[7 := ucast (drop_bit 24 (hana (b6 ! 6)) AND 0xFF)]
               in (b7, hana, []))
            else if unat (b ! 6) + (if b ! 3 = 0x8D then 0x200 else 0x100) = (0x102 :: nat) then
              (b[3 := 0x53, 4 := 0x92, 5 := 0, 6 := 0], hana, [])
            else
              (b[3 := 0, 4 := 0, 5 := 0, 6 := 0], hana,
               [LOG_WARNING ''[I2C] Reading from I2C at address {:#x}, unimplemented, returning 0.'']))
      else if sub = 0x11 then
        (buf[0 := b0, 1 := 0, 3 := 0, 4 := 0, 5 := 0, 6 := 0], hana,
         [LOG_WARNING ''[I2C] DDC Read (STUB). Address = {:#x}, returning 0.''])
      else if sub = 0x20 then
        (buf[0 := b0, 1 := 0], hana,
         [LOG_WARNING ''[I2C] Write (STUB). Address = {:#x}, value = {:#x}.''])
      else if sub = 0x21 then
        (buf[0 := b0, 1 := 0], hana,
         [LOG_WARNING ''[I2C] DDC Write (STUB). Address = {:#x}, value = {:#x}.''])
      else if sub = 0x60 then
        (let b = buf[0 := b0, 1 := 0]
         in (b,
             hana(b ! 6 :=
               ucast (b ! 8) OR push_bit 8 (ucast (b ! 9)) OR push_bit 16 (ucast (b ! 10))
                 OR push_bit 24 (ucast (b ! 11))),
             []))
      else
        (buf[0 := b0, 1 := 0x1], hana,
         [LOG_WARNING ''SMC_I2C_READ_WRITE: Unimplemented command 0x{:X}'']))"

text \<open>
  The outer \<^verbatim>\<open>switch (fifoDataBuffer[0])\<close>: the buffer and the HANA registers after
  the branch, the flag \<^verbatim>\<open>noResponse\<close>, and the events of the branch.
\<close>

definition unimplemented_cmd ::
  "'u SMC \<Rightarrow> string \<Rightarrow> u8 list \<times> (u8 \<Rightarrow> u32) \<times> bool \<times> smc_event list" where
  "unimplemented_cmd s name =
     (fifoDataBuffer s, hanaState s, False,
      [SMC_Log (LOG_WARNING (''Unimplemented SMC_FIFO_CMD: '' @ name))])"

fun fifo_command ::
  "SMC_FIFO_CMD \<Rightarrow> 'u SMC \<Rightarrow> u8 list \<times> (u8 \<Rightarrow> u32) \<times> bool \<times> smc_event list" where
  "fifo_command SMC_PWRON_TYPE s =
     ((replicate 16 0)[0 := fifoDataBuffer s ! 0, 1 := currPowerOnReason s],
      hanaState s, False, [])"
| "fifo_command SMC_QUERY_RTC s =
     ((replicate 16 0)[0 := fifoDataBuffer s ! 0, 1 := 0], hanaState s, False, [])"
| "fifo_command SMC_QUERY_TEMP_SENS s =
     ((fifoDataBuffer s)[0 := fifoDataBuffer s ! 0, 1 := 0x24, 2 := 0x1B, 3 := 0x2F,
        4 := 0xA4, 5 := 0x2C, 6 := 0x24, 7 := 0x26, 8 := 0x2C],
      hanaState s, False,
      [SMC_Log (LOG_WARNING ''SMC_FIFO_CMD: SMC_QUERY_TEMP_SENS: {:#d}, {:#d}, {:#d}, {:#d}'')])"
| "fifo_command SMC_QUERY_TRAY_STATE s =
     ((fifoDataBuffer s)[0 := fifoDataBuffer s ! 0, 1 := currTrayState s],
      hanaState s, False, [])"
| "fifo_command SMC_QUERY_AVPACK s =
     ((fifoDataBuffer s)[0 := fifoDataBuffer s ! 0, 1 := currAVPackType s],
      hanaState s, False, [])"
| "fifo_command SMC_I2C_READ_WRITE s =
     (let (buf, hana, lg) = i2c_read_write (fifoDataBuffer s ! 0) (fifoDataBuffer s) (hanaState s)
      in (buf, hana, False, map SMC_Log lg))"
| "fifo_command SMC_QUERY_VERSION s =
     ((fifoDataBuffer s)[0 := fifoDataBuffer s ! 0, 1 := 0x41, 2 := 0x02, 3 := 0x03],
      hanaState s, False, [])"
| "fifo_command SMC_FIFO_TEST s = unimplemented_cmd s ''SMC_FIFO_TEST''"
| "fifo_command SMC_QUERY_IR_ADDRESS s = unimplemented_cmd s ''SMC_QUERY_IR_ADDRESS''"
| "fifo_command SMC_QUERY_TILT_SENSOR s = unimplemented_cmd s ''SMC_QUERY_TILT_SENSOR''"
| "fifo_command SMC_READ_82_INT s = unimplemented_cmd s ''SMC_READ_82_INT''"
| "fifo_command SMC_READ_8E_INT s = unimplemented_cmd s ''SMC_READ_8E_INT''"
| "fifo_command SMC_SET_STANDBY s =
     (let buf = (fifoDataBuffer s)[0 := fifoDataBuffer s ! 0]
      in (buf, hanaState s, False,
          if buf ! 1 = 0x01 then
            [SMC_Log (LOG_INFO ''[Standby] Requested shutdown''), Set_XeRunning False]
          else if buf ! 1 = 0x04 then
            [SMC_Log (LOG_INFO ''[Standby] Requested reboot''), Call_Reboot (buf ! 2)]
          else
            [SMC_Log (LOG_WARNING
               ''Unimplemented SMC_FIFO_CMD Subtype in SMC_SET_STANDBY: 0x{:02X}'')]))"
| "fifo_command SMC_SET_TIME s = unimplemented_cmd s ''SMC_SET_TIME''"
| "fifo_command SMC_SET_FAN_ALGORITHM s = unimplemented_cmd s ''SMC_SET_FAN_ALGORITHM''"
| "fifo_command SMC_SET_FAN_SPEED_CPU s = unimplemented_cmd s ''SMC_SET_FAN_SPEED_CPU''"
| "fifo_command SMC_SET_DVD_TRAY s = unimplemented_cmd s ''SMC_SET_DVD_TRAY''"
| "fifo_command SMC_SET_POWER_LED s = unimplemented_cmd s ''SMC_SET_POWER_LED''"
| "fifo_command SMC_SET_AUDIO_MUTE s = unimplemented_cmd s ''SMC_SET_AUDIO_MUTE''"
| "fifo_command SMC_ARGON_RELATED s = unimplemented_cmd s ''SMC_ARGON_RELATED''"
| "fifo_command SMC_SET_FAN_SPEED_GPU s = unimplemented_cmd s ''SMC_SET_FAN_SPEED_GPU''"
| "fifo_command SMC_SET_IR_ADDRESS s = unimplemented_cmd s ''SMC_SET_IR_ADDRESS''"
| "fifo_command SMC_SET_DVD_TRAY_SECURE s = unimplemented_cmd s ''SMC_SET_DVD_TRAY_SECURE''"
| "fifo_command SMC_SET_FP_LEDS s =
     (fifoDataBuffer s, hanaState s, True,
      [SMC_Log (LOG_WARNING ''Unimplemented SMC_FIFO_CMD: SMC_SET_FP_LEDS'')])"
| "fifo_command SMC_SET_RTC_WAKE s = unimplemented_cmd s ''SMC_SET_RTC_WAKE''"
| "fifo_command SMC_ANA_RELATED s = unimplemented_cmd s ''SMC_ANA_RELATED''"
| "fifo_command SMC_SET_ASYNC_OPERATION s = unimplemented_cmd s ''SMC_SET_ASYNC_OPERATION''"
| "fifo_command SMC_SET_82_INT s = unimplemented_cmd s ''SMC_SET_82_INT''"
| "fifo_command SMC_SET_9F_INT s = unimplemented_cmd s ''SMC_SET_9F_INT''"
| "fifo_command SMC_UNKNOWN s =
     (fifoDataBuffer s, hanaState s, False,
      [SMC_Log (LOG_WARNING ''Unknown SMC_FIFO_CMD: ID = 0x{:X}'')])"

text \<open>
  One pass of the thread's loop through
  \<^verbatim>\<open>if (smcPCIState.fifoInStatusReg == FIFO_STATUS_BUSY) { ... }\<close>, run without
  interference from the guest: the device after the block and the events of the block
  in program order. The condition of the interrupt is
  \<^verbatim>\<open>smiIntEnabledReg & SMI_INT_ENABLED && noResponse == false\<close>.
\<close>

definition smc_fifo_block ::
  "(u8 \<Rightarrow> SMC_FIFO_CMD) \<Rightarrow> 'u SMC \<Rightarrow> 'u SMC \<times> smc_event list" where
  "smc_fifo_block cmd_of s =
     (if fifoInStatusReg s = FIFO_STATUS_BUSY then
        (let (buf, hana, noResponse, evs) = fifo_command (cmd_of (fifoDataBuffer s ! 0)) s;
             s1 = s\<lparr>fifoOutStatusReg := FIFO_STATUS_READY, fifoInStatusReg := FIFO_STATUS_READY,
                    fifoDataBuffer := buf, hanaState := hana\<rparr>;
             irq = (smiIntEnabledReg s1 AND SMI_INT_ENABLED \<noteq> 0 \<and> noResponse = False)
         in ((if irq then s1\<lparr>smiIntPendingReg := SMI_INT_PENDING\<rparr> else s1),
             [Set_fifoOutStatusReg FIFO_STATUS_BUSY, Set_fifoInStatusReg FIFO_STATUS_READY]
             @ evs @ [Set_fifoOutStatusReg FIFO_STATUS_READY]
             @ (if irq
                then [Set_smiIntPendingReg SMI_INT_PENDING, Call_RouteInterrupt PRIO_SMM]
                else [])))
      else (s, []))"

subsection \<open>Guest-side access sequences\<close>

text \<open>
  A guest's 32-bit configuration write of the value \<open>v\<close> followed by a 32-bit
  configuration read at the same address into the buffer \<open>data\<close>: the device after
  both and the value read.
\<close>

definition config_write_read ::
  "'u SMC \<Rightarrow> u64 \<Rightarrow> u32 \<Rightarrow> u8 list \<Rightarrow> ('u SMC \<times> u32) option" where
  "config_write_read s addr v data =
     (case SMC_ConfigWrite s addr (le_bytes 4 v) 4 of
        None \<Rightarrow> None
      | Some (s1, lg) \<Rightarrow>
          map_option (\<lambda>(d, lg'). (s1, le_word (take 4 d))) (SMC_ConfigRead s1 addr data 4))"

text \<open>A sequence of guest writes, each an address, a buffer and a size; it stops at the
  first write that has no value.\<close>

fun SMC_Writes ::
  "'u UART_ops \<Rightarrow> 'u SMC \<Rightarrow> (u64 \<times> u8 list \<times> nat) list \<Rightarrow> 'u SMC option" where
  "SMC_Writes uo s [] = Some s"
| "SMC_Writes uo s ((a, d, n) # ws) =
     (case SMC_Write uo s a d n of None \<Rightarrow> None | Some (s1, lg) \<Rightarrow> SMC_Writes uo s1 ws)"

text \<open>\<open>n\<close> guest reads of 4 bytes from the address \<open>a\<close>, each into a fresh 4-byte
  buffer: the device after them and the bytes read. It stops at the first read that has
  no value.\<close>

fun SMC_Reads :: "'u UART_ops \<Rightarrow> 'u SMC \<Rightarrow> u64 \<Rightarrow> nat \<Rightarrow> ('u SMC \<times> u8 list) option" where
  "SMC_Reads uo s a 0 = Some (s, [])"
| "SMC_Reads uo s a (Suc n) =
     (case SMC_Read uo s a [0, 0, 0, 0] 4 of
        None \<Rightarrow> None
      | Some (s1, d, lg) \<Rightarrow> map_option (\<lambda>(s2, ds). (s2, d @ ds)) (SMC_Reads uo s1 a n))"

text \<open>
  The command block run on a message: the device as the guest leaves it after it has
  written the 16 bytes \<open>msg\<close> to the FIFO and \<^verbatim>\<open>FIFO_STATUS_BUSY\<close> to the status
  register, then one pass of the thread.
\<close>

definition smc_message ::
  "(u8 \<Rightarrow> SMC_FIFO_CMD) \<Rightarrow> 'u SMC \<Rightarrow> u8 list \<Rightarrow> 'u SMC \<times> smc_event list" where
  "smc_message cmd_of s msg =
     smc_fifo_block cmd_of (s\<lparr>fifoDataBuffer := msg, fifoInStatusReg := FIFO_STATUS_BUSY\<rparr>)"

text \<open>
  The SMC as a device on the bridge. \<^verbatim>\<open>IsAddressMappedInBAR\<close> belongs to the base
  class \<^verbatim>\<open>PCIDevice\<close>, which is not at hand; it is the argument \<open>mapped\<close>.
\<close>

definition SMC_ops :: "'u UART_ops \<Rightarrow> ('u SMC \<Rightarrow> u32 \<Rightarrow> bool) \<Rightarrow> 'u SMC PCIDevice_ops" where
  "SMC_ops uo mapped =
     \<lparr> IsAddressMappedInBAR = mapped, dev_Read = SMC_Read uo, dev_Write = SMC_Write uo,
       dev_ConfigRead = SMC_ConfigRead, dev_ConfigWrite = SMC_ConfigWrite \<rparr>"

subsection \<open>A device for examples\<close>

text \<open>
  Modelled from the spec: the \<open>null\<close> UART backend discards what is written and
  has nothing to read; its class is not among the sources at hand.
\<close>

definition UART_NULL :: "unit UART_ops" where
  "UART_NULL =
     \<lparr> uart_Read = (\<lambda>u. (0, u)), uart_retVal = (\<lambda>u. False),
       uart_ReadStatus = (\<lambda>u. (0, u)), uart_SetupNeeded = (\<lambda>u. False),
       uart_Init = (\<lambda>u c. u), uart_Write = (\<lambda>u b. u) \<rparr>"

text \<open>
  The device as the constructor and the start of the thread leave it, for given BAR
  sizes (the constructor sets \<^verbatim>\<open>pciDevSizes[0] = 0x100\<close>): \<^verbatim>\<open>smcPCIState\<close> zeroed,
  \<^verbatim>\<open>fifoInStatusReg = FIFO_STATUS_READY\<close>, an empty FIFO. The images
  \<^verbatim>\<open>smcConfigSpaceMap\<close> and \<^verbatim>\<open>HANA_State\<close>, the value of \<^verbatim>\<open>UART_STATUS_EMPTY\<close> and
  the configured AV pack and power-on reason are not at hand; the example takes zeros.
\<close>

definition SMC_example :: "u32 list \<Rightarrow> unit SMC" where
  "SMC_example sizes =
     \<lparr> uartOutReg = 0, uartInReg = 0, uartStatusReg = 0, uartConfigReg = 0,
       smiIntPendingReg = 0, smiIntAckReg = 0, smiIntEnabledReg = 0,
       clockIntEnabledReg = 0, clockIntStatusReg = 0,
       fifoInStatusReg = FIFO_STATUS_READY, fifoOutStatusReg = 0,
       currentUARTSystem = UART_null,
       currAVPackType = 0, currPowerOnReason = 0, currTrayState = 0,
       fifoDataBuffer = replicate 16 0, fifoBufferPos = 0, uartHandle = (),
       pciConfigSpace = replicate 256 0, pciDevSizes = sizes,
       hanaState = (\<lambda>i. 0) \<rparr>"

text \<open>
  A bridge for examples: the register file the constructor leaves, a zeroed
  configuration space (the image \<^verbatim>\<open>pciBridgeConfigMap\<close> is not at hand) and the given
  devices attached.
\<close>

definition PCIBridge_example :: "(string \<times> 'd) list \<Rightarrow> 'd PCIBridge" where
  "PCIBridge_example devs =
     \<lparr> pciBridgeState = PCI_BRIDGE_STATE_init, pciBridgeConfig = replicate 256 0,
       connectedPCIDevices = devs \<rparr>"

section \<open>Results about SystemDevice\<close>

lemma unat_sub_wrapped:
  fixes a b :: u64
  assumes "a < b"
  shows "unat (a - b) = 2 ^ 64 - (unat b - unat a)"
proof -
  have lt: "unat a < unat b"
    using assms by (simp add: word_less_nat_alt)
  have bb: "unat b < 2 ^ 64"
    using unsigned_less [of b] by simp
  have "a - b = a + (- b)" by simp
  have "unat (a - b) = (unat a + (2 ^ 64 - unat b)) mod 2 ^ 64"
    using lt bb by (simp add: unat_sub_if' )
  then show ?thesis
    using lt bb by simp
qed

lemma double_mod_cases_gen:
  fixes n M :: nat
  assumes "(n + n) mod (M + M) = 0" and "n < M + M"
  shows "n = 0 \<or> n = M"
proof -
  obtain q where q: "n + n = (M + M) * q"
    using assms(1) by (auto simp: mod_eq_0_iff_dvd dvd_def)
  have "q < 2"
  proof (rule ccontr)
    assume "\<not> q < 2"
    then have "2 \<le> q" by simp
    then have "(M + M) * 2 \<le> (M + M) * q" by (rule mult_le_mono2)
    then show False using q assms(2) by simp
  qed
  then have "q = 0 \<or> q = 1" by arith
  then show ?thesis using q by auto
qed

lemma double_mod_cases:
  fixes n :: nat
  assumes "(n + n) mod 2 ^ 64 = 0" and "n < 2 ^ 64"
  shows "n = 0 \<or> n = 2 ^ 63"
  using double_mod_cases_gen [of n "2 ^ 63"] assms by simp

lemma neg_eq_self_u64: "(- x = (x::u64)) = (x = 0 \<or> x = 2 ^ 63)"
proof
  assume h: "- x = x"
  then have "x + x = 0"
    by (metis add.right_inverse)
  then have "unat (x + x) = 0" by (simp only: unat_0)
  moreover have "unat (x + x) = (unat x + unat x) mod 2 ^ LENGTH(64)"
    by (rule unat_word_ariths(1))
  ultimately have "(unat x + unat x) mod 2 ^ 64 = 0" by simp
  moreover have "unat x < 2 ^ 64" using unsigned_less [of x] by simp
  ultimately have "unat x = 0 \<or> unat x = 2 ^ 63" by (rule double_mod_cases)
  then show "x = 0 \<or> x = 2 ^ 63"
  proof
    assume "unat x = 0"
    then show ?thesis by (simp add: unat_eq_0)
  next
    assume "unat x = 2 ^ 63"
    moreover have "unat (2 ^ 63 :: u64) = 2 ^ 63" by simp
    ultimately have "unat x = unat (2 ^ 63 :: u64)" by (simp only:)
    then have "x = 2 ^ 63" by (simp only: word_unat_eq_iff)
    then show ?thesis ..
  qed
next
  have top: "(2 ^ 63 :: u64) + 2 ^ 63 = 0" by simp
  assume "x = 0 \<or> x = 2 ^ 63"
  then show "- x = x"
  proof
    assume "x = 0" then show ?thesis by simp
  next
    assume "x = 2 ^ 63"
    then have "x + x = 0" using top by (simp only:)
    then show ?thesis by (simp only: neg_eq_iff_add_eq_0)
  qed
qed

text \<open>
  C10 (amended). For a device whose \<open>endAddr\<close> is greater than its \<open>startAddr\<close>,
  \<open>GetSize\<close> returns \<open>startAddr - endAddr\<close> modulo \<open>2 ^ 64\<close>, that is
  \<open>2 ^ 64 - (endAddr - startAddr)\<close>; this differs from the length of the range
  \<open>endAddr - startAddr\<close> except when that length is exactly \<open>2 ^ 63\<close>.
\<close>

theorem GetSize_wrapped:
  assumes "startAddr d < endAddr d"
  shows "unat (GetSize d) = 2 ^ 64 - (unat (endAddr d) - unat (startAddr d)) \<and>
         (GetSize d = endAddr d - startAddr d) = (endAddr d - startAddr d = 2 ^ 63)"
proof -
  have ne: "endAddr d - startAddr d \<noteq> 0" using assms by auto
  have "GetSize d = - (endAddr d - startAddr d)" by (simp add: GetSize_def)
  then have "(GetSize d = endAddr d - startAddr d) = (endAddr d - startAddr d = 2 ^ 63)"
    using neg_eq_self_u64 [of "endAddr d - startAddr d"] ne by auto
  moreover have "unat (GetSize d) = 2 ^ 64 - (unat (endAddr d) - unat (startAddr d))"
    using assms by (simp add: GetSize_def unat_sub_wrapped)
  ultimately show ?thesis by simp
qed

theorem GetSize_wrapped_witness:
  "startAddr (SystemDevice ''NAND'' 0xC8000000 0xCC000000 False)
     < endAddr (SystemDevice ''NAND'' 0xC8000000 0xCC000000 False) \<and>
   unat (GetSize (SystemDevice ''NAND'' 0xC8000000 0xCC000000 False)) = 2 ^ 64 - 0x4000000 \<and>
   GetSize (SystemDevice ''NAND'' 0xC8000000 0xCC000000 False) \<noteq> 0x4000000"
proof -
  have lt: "startAddr (SystemDevice ''NAND'' 0xC8000000 0xCC000000 False)
     < endAddr (SystemDevice ''NAND'' 0xC8000000 0xCC000000 False)"
    by (simp add: SystemDevice_def)
  show ?thesis
    using lt GetSize_wrapped [OF lt] by (simp add: SystemDevice_def)
qed

text \<open>
  C10 as stated fails for a range of length \<open>2 ^ 63\<close>: there the wrapped difference
  is the length of the range.
\<close>

theorem GetSize_counterexample:
  "startAddr (SystemDevice ''dev'' 0 0x8000000000000000 False)
     < endAddr (SystemDevice ''dev'' 0 0x8000000000000000 False) \<and>
   GetSize (SystemDevice ''dev'' 0 0x8000000000000000 False)
     = endAddr (SystemDevice ''dev'' 0 0x8000000000000000 False)
       - startAddr (SystemDevice ''dev'' 0 0x8000000000000000 False)"
  by (simp add: SystemDevice_def GetSize_def)

section \<open>Results about interrupt routing\<close>

text \<open>
  C1 (amended). For every wired source other than \<open>PRIO_GRAPHICS\<close> and \<open>PRIO_XPS\<close>,
  \<open>RouteInterrupt\<close> calls \<open>genInterrupt(prio, targetCPU)\<close> of the source's priority
  register exactly when the register's \<open>intEnabled\<close> bit is set; if the bit is 0 it makes
  no \<open>genInterrupt\<close> call, whatever the override. For \<open>PRIO_GRAPHICS\<close> and \<open>PRIO_XPS\<close>
  the bit is not consulted: in every bridge state the call is made exactly when the
  override is not \<open>0xFF\<close>.
\<close>

theorem RouteInterrupt_disabled:
  "(prio \<noteq> PRIO_GRAPHICS \<and> prio \<noteq> PRIO_XPS \<and> prio_reg_of st prio = Some reg \<longrightarrow>
      fst (RouteInterrupt st prio cpu) =
        (if intEnabled reg then [IIC_genInterrupt prio (targetCPU reg)] else [])) \<and>
   (prio \<noteq> PRIO_GRAPHICS \<and> prio \<noteq> PRIO_XPS \<and> prio_reg_of st prio = Some reg
      \<and> \<not> intEnabled reg \<longrightarrow>
      genInterrupt_calls (fst (RouteInterrupt st prio cpu)) = []) \<and>
   genInterrupt_calls (fst (RouteInterrupt st PRIO_GRAPHICS cpu)) =
     (if cpu \<noteq> 0xFF then [(PRIO_GRAPHICS, cpu)] else []) \<and>
   genInterrupt_calls (fst (RouteInterrupt st PRIO_XPS cpu)) =
     (if cpu \<noteq> 0xFF then [(PRIO_XPS, cpu)] else [])"
  by (cases prio) (simp_all add: route_if_enabled_def)

theorem RouteInterrupt_disabled_witness:
  "genInterrupt_calls (fst (RouteInterrupt PCI_BRIDGE_STATE_init PRIO_SMM 3)) = [] \<and>
   fst (RouteInterrupt
          (PCI_BRIDGE_STATE_init\<lparr>PRIO_REG_SMM := PRIO_REG_zero\<lparr>intEnabled := True, targetCPU := 2\<rparr>\<rparr>)
          PRIO_SMM 3) = [IIC_genInterrupt PRIO_SMM 2] \<and>
   genInterrupt_calls
     (fst (RouteInterrupt
        (PCI_BRIDGE_STATE_init\<lparr>PRIO_REG_GRAPHICS := PRIO_REG_zero\<lparr>intEnabled := True\<rparr>\<rparr>)
        PRIO_GRAPHICS 0xFF)) = [] \<and>
   genInterrupt_calls (fst (RouteInterrupt PCI_BRIDGE_STATE_init PRIO_XPS 1)) = [(PRIO_XPS, 1)]"
  using RouteInterrupt_disabled [of PRIO_SMM PCI_BRIDGE_STATE_init PRIO_REG_zero 3]
    RouteInterrupt_disabled [of PRIO_SMM
      "PCI_BRIDGE_STATE_init\<lparr>PRIO_REG_SMM := PRIO_REG_zero\<lparr>intEnabled := True, targetCPU := 2\<rparr>\<rparr>"
      "PRIO_REG_zero\<lparr>intEnabled := True, targetCPU := 2\<rparr>" 3]
    RouteInterrupt_disabled [of PRIO_SMM
      "PCI_BRIDGE_STATE_init\<lparr>PRIO_REG_GRAPHICS := PRIO_REG_zero\<lparr>intEnabled := True\<rparr>\<rparr>"
      PRIO_REG_zero "0xFF"]
    RouteInterrupt_disabled [of PRIO_SMM PCI_BRIDGE_STATE_init PRIO_REG_zero 1]
  by (simp add: PCI_BRIDGE_STATE_init_def PRIO_REG_zero_def)

text \<open>
  C1 as stated fails for \<open>PRIO_GRAPHICS\<close>: in the state the constructor leaves, the
  \<open>intEnabled\<close> bit of \<open>PRIO_REG_GRAPHICS\<close> is 0, and \<open>RouteInterrupt(PRIO_GRAPHICS, 0)\<close>
  calls \<open>genInterrupt(PRIO_GRAPHICS, 0)\<close>.
\<close>

theorem RouteInterrupt_disabled_counterexample:
  "prio_reg_of PCI_BRIDGE_STATE_init PRIO_GRAPHICS = Some PRIO_REG_zero \<and>
   intEnabled PRIO_REG_zero = False \<and>
   genInterrupt_calls (fst (RouteInterrupt PCI_BRIDGE_STATE_init PRIO_GRAPHICS 0))
     = [(PRIO_GRAPHICS, 0)]"
  by (simp add: PCI_BRIDGE_STATE_init_def PRIO_REG_zero_def)

text \<open>
  C8. For \<open>prio\<close> one of \<open>PRIO_GRAPHICS\<close> and \<open>PRIO_XPS\<close>: with the override \<open>0xFF\<close>,
  \<open>RouteInterrupt\<close> makes no \<open>genInterrupt\<close> call and logs an error; with any other
  override it makes exactly the call \<open>genInterrupt(prio, override)\<close>, whatever the
  bridge state holds, and logs no error.
\<close>

theorem RouteInterrupt_graphics:
  assumes "prio = PRIO_GRAPHICS \<or> prio = PRIO_XPS"
  shows "fst (RouteInterrupt st prio cpu) =
           (if cpu = 0xFF
            then [Log (LOG_ERROR ''Routing GFX interrupt without target CPU index.'')]
            else [IIC_genInterrupt prio cpu]) \<and>
         genInterrupt_calls (fst (RouteInterrupt st prio cpu)) =
           (if cpu = 0xFF then [] else [(prio, cpu)]) \<and>
         error_logged (fst (RouteInterrupt st prio cpu)) = (cpu = 0xFF)"
  using assms by (auto split: if_splits)

theorem RouteInterrupt_graphics_witness:
  "genInterrupt_calls (fst (RouteInterrupt PCI_BRIDGE_STATE_init PRIO_XPS 0xFF)) = [] \<and>
   error_logged (fst (RouteInterrupt PCI_BRIDGE_STATE_init PRIO_XPS 0xFF)) \<and>
   genInterrupt_calls (fst (RouteInterrupt PCI_BRIDGE_STATE_init PRIO_GRAPHICS 2))
     = [(PRIO_GRAPHICS, 2)]"
  using RouteInterrupt_graphics [of PRIO_XPS PCI_BRIDGE_STATE_init "0xFF"]
        RouteInterrupt_graphics [of PRIO_GRAPHICS PCI_BRIDGE_STATE_init 2]
  by simp

section \<open>Bytes and words\<close>

lemma length_le_bytes: "length (le_bytes n w) = n" by (simp add: le_bytes_def)

lemma take_le_bytes: "m \<le> n \<Longrightarrow> take m (le_bytes n w) = le_bytes m w"
  by (simp add: le_bytes_def take_map min_def)

lemma bit_le_word:
  "bit (le_word bs :: 'a::len word) n \<longleftrightarrow>
     n < LENGTH('a) \<and> n div 8 < length bs \<and> bit (bs ! (n div 8)) (n mod 8)"
proof (induction bs arbitrary: n)
  case Nil
  then show ?case by simp
next
  case (Cons b bs)
  show ?case
  proof (cases "n < 8")
    case True
    then show ?thesis
      by (auto simp: bit_simps dest: bit_imp_le_length)
  next
    case False
    then have n8: "8 \<le> n" by simp
    have d: "(n - 8) div 8 = n div 8 - 1" using n8 by (simp add: le_div_geq)
    have m: "(n - 8) mod 8 = n mod 8" using n8 by (simp add: le_mod_geq)
    have p: "0 < n div 8" using n8 by (simp add: le_div_geq)
    have nb: "\<not> bit b n" using n8 by (auto dest: bit_imp_le_length)
    have "bit (le_word (b # bs) :: 'a word) n = (n < LENGTH('a) \<and> bit (le_word bs :: 'a word) (n - 8))"
      using n8 nb by (auto simp: bit_simps)
    also have "\<dots> = (n < LENGTH('a) \<and> n div 8 - 1 < length bs \<and> bit (bs ! (n div 8 - 1)) (n mod 8))"
      by (auto simp: Cons.IH d m)
    also have "\<dots> = (n < LENGTH('a) \<and> n div 8 < length (b # bs) \<and> bit ((b # bs) ! (n div 8)) (n mod 8))"
      using p by (cases "n div 8") auto
    finally show ?thesis .
  qed
qed

lemma div8_less: "(n div 8 < m) = (n < 8 * (m::nat))"
proof
  assume "n div 8 < m"
  then show "n < 8 * m" by (simp add: div_less_iff_less_mult mult.commute)
next
  assume "n < 8 * m"
  then show "n div 8 < m" by (simp add: div_less_iff_less_mult mult.commute)
qed

lemma le_word_le_bytes:
  "(le_word (le_bytes m w) :: 'b::len word) = ucast (take_bit (8 * m) (w :: 'a::len word))"
  by (rule bit_eqI) (auto simp: bit_le_word length_le_bytes le_bytes_def bit_simps div8_less)

lemma le_word_le_bytes_4_32: "(le_word (le_bytes 4 (w::u32)) :: u32) = w"
  by (simp add: le_word_le_bytes take_bit_word_eq_self)

lemma le_word_le_bytes_4_64: "(le_word (le_bytes 4 (w::u32)) :: u64) = ucast w"
  by (simp add: le_word_le_bytes take_bit_word_eq_self)

lemma le_word_le_bytes_4_64_32: "(le_word (le_bytes 4 (w::u64)) :: u32) = ucast w"
  by (simp add: le_word_le_bytes) (rule bit_eqI, auto simp: bit_simps)

section \<open>The loop of the BAR size discovery\<close>

lemma unat_pow2_u64: "j < 64 \<Longrightarrow> unat (2 ^ j :: u64) = 2 ^ j"
proof -
  assume j: "j < 64"
  have "(2 ^ j :: u64) = of_nat (2 ^ j)" by simp
  then have "unat (2 ^ j :: u64) = 2 ^ j mod 2 ^ LENGTH(64)"
    by (simp only: unat_of_nat)
  moreover have "(2::nat) ^ j < 2 ^ 64" using j by (simp only: power_strict_increasing_iff one_less_numeral_iff semiring_norm)
  ultimately show ?thesis by simp
qed

lemma pow2_le_u64: "i < 64 \<Longrightarrow> j < 64 \<Longrightarrow> ((2 ^ i :: u64) \<le> 2 ^ j) = (i \<le> j)"
  by (simp add: word_le_nat_alt unat_pow2_u64)

lemma push1_pow2: "push_bit 1 (2 ^ k :: u64) = 2 ^ Suc k"
  by (simp add: push_bit_eq_mult)

lemma clear_one: "tmp AND NOT (2 ^ k) = tmp AND NOT (mask (Suc k) AND NOT (mask k))" for tmp :: u64
  by (rule bit_eqI) (auto simp: bit_simps less_Suc_eq)

lemma clear_more:
  "k < n \<Longrightarrow> (tmp AND NOT (2 ^ k)) AND NOT (mask n AND NOT (mask (Suc k)))
     = tmp AND NOT (mask n AND NOT (mask k))" for tmp :: u64
  by (rule bit_eqI) (auto simp: bit_simps less_Suc_eq)

lemma bar_scan_stop:
  assumes "k \<le> 29" and "n \<le> Suc k"
  shows "bar_scan (Suc k) tmp (2 ^ k) (2 ^ n) = tmp AND NOT (2 ^ k)"
proof -
  have le: "(2 ^ n :: u64) \<le> 2 ^ Suc k"
    using assms by (subst pow2_le_u64) auto
  show ?thesis
    using assms(1) le by (subst bar_scan.simps) (simp add: power_Suc2 [symmetric] Let_def del: power_Suc)
qed

lemma bar_scan_step:
  assumes "k \<le> 29" and "Suc k < n" and "n \<le> 30"
  shows "bar_scan (Suc k) tmp (2 ^ k) (2 ^ n)
           = bar_scan (Suc (Suc k)) (tmp AND NOT (2 ^ k)) (2 ^ Suc k) (2 ^ n)"
proof -
  have nle: "\<not> (2 ^ n :: u64) \<le> 2 ^ Suc k"
    using assms by (subst pow2_le_u64) auto
  show ?thesis
    using assms(1) nle by (subst bar_scan.simps) (simp add: power_Suc2 [symmetric] Let_def del: power_Suc)
qed

lemma bar_scan_pow2:
  "k \<le> 29 \<Longrightarrow> n \<le> 30 \<Longrightarrow>
   bar_scan (Suc k) tmp (2 ^ k) (2 ^ n) = tmp AND NOT (mask (max n (Suc k)) AND NOT (mask k))"
proof (induction "n - k" arbitrary: k tmp)
  case 0
  then have nk: "n \<le> Suc k" by simp
  show ?case using nk 0 by (simp add: bar_scan_stop clear_one max_def del: power_Suc)
next
  case (Suc d)
  show ?case
  proof (cases "n \<le> Suc k")
    case True
    then show ?thesis using Suc.prems by (simp add: bar_scan_stop clear_one max_def del: power_Suc)
  next
    case False
    then have kn: "Suc k < n" by simp
    have k1: "Suc k \<le> 29" using kn Suc.prems by simp
    have d: "d = n - Suc k" using Suc.hyps(2) by simp
    have mx1: "max n (Suc k) = n" using kn by simp
    have mx2: "max n (Suc (Suc k)) = n" using kn by simp
    have kn': "k < n" using kn by simp
    have "bar_scan (Suc k) tmp (2 ^ k) (2 ^ n)
            = bar_scan (Suc (Suc k)) (tmp AND NOT (2 ^ k)) (2 ^ Suc k) (2 ^ n)"
      using Suc.prems kn by (rule_tac bar_scan_step)
    also have "\<dots> = (tmp AND NOT (2 ^ k)) AND NOT (mask (max n (Suc (Suc k))) AND NOT (mask (Suc k)))"
      using Suc.hyps(1) [OF d k1 Suc.prems(2)] .
    also have "\<dots> = tmp AND NOT (mask n AND NOT (mask k))"
      using kn' by (simp only: mx2 clear_more)
    finally show ?thesis by (simp only: mx1)
  qed
qed

lemma ucast_pow2: "n < 32 \<Longrightarrow> (ucast (2 ^ n :: u32) :: u64) = 2 ^ n"
  by (rule bit_eqI) (auto simp: bit_simps)

lemma discovery_value:
  assumes "n \<le> 30"
  shows "(ucast (bar_scan 2 0xFFFFFFFF 2 (ucast (2 ^ n :: u32)) AND NOT 3) :: u32)
           = NOT (2 ^ n - 1) AND 0xFFFFFFFC"
proof -
  have n32: "n < 32" using assms by simp
  have "bar_scan (Suc 1) 0xFFFFFFFF (2 ^ 1) (2 ^ n)
          = 0xFFFFFFFF AND NOT (mask (max n (Suc 1)) AND NOT (mask 1))"
    using assms by (rule_tac bar_scan_pow2) auto
  then have a: "bar_scan 2 0xFFFFFFFF 2 (2 ^ n) = mask 32 AND NOT (mask (max n 2) AND NOT (mask 1))"
    by (simp add: numeral_2_eq_2 mask_eq_decr_exp [of 32])
  have c: "(0xFFFFFFFC :: u32) = NOT (mask 2)" by (simp add: mask_eq_decr_exp)
  have d: "(3 :: u64) = mask 2" by (simp add: mask_eq_decr_exp)
  have e: "(2 ^ n - 1 :: u32) = mask n" by (simp add: mask_eq_decr_exp)
  have "(ucast ((mask 32 AND NOT (mask (max n 2) AND NOT (mask 1))) AND NOT (mask 2) :: u64) :: u32)
          = NOT (mask n) AND NOT (mask 2)"
    by (rule bit_eqI) (auto simp: bit_simps)
  then show ?thesis
    by (simp only: ucast_pow2 [OF n32] a c d e)
qed

section \<open>Results about the configuration space of the SMC\<close>

lemma memcpy_into_Some:
  assumes "pos + n \<le> length buf" and "n \<le> length src"
  shows "memcpy_into buf pos src n = Some (take pos buf @ take n src @ drop (pos + n) buf)"
  using assms by (simp add: memcpy_into_def)

lemma memcpy_from_written:
  assumes "pos + n \<le> length buf" and "n \<le> length src" and "n \<le> length data"
  shows "memcpy_from (take pos buf @ take n src @ drop (pos + n) buf) pos data n
           = Some (take n src @ drop n data)"
  using assms by (auto simp: memcpy_from_def memcpy_out_def)

lemma config_write_read_value:
  assumes len: "length (pciConfigSpace s) = 256"
    and off: "unat (ucast addr :: u8) + 4 \<le> 256"
    and data: "4 \<le> length data"
    and val: "config_value (pciDevSizes s) (ucast addr) (ucast v) = Some tmp"
  shows "config_write_read s addr v data =
           Some (s\<lparr>pciConfigSpace :=
                     take (unat (ucast addr :: u8)) (pciConfigSpace s) @ le_bytes 4 tmp
                       @ drop (unat (ucast addr :: u8) + 4) (pciConfigSpace s)\<rparr>,
                 ucast tmp)"
proof -
  let ?pos = "unat (ucast addr :: u8)"
  have tmp0: "memcpy_to_tmp (le_bytes 4 v) 4 = Some (ucast v)"
    by (simp add: memcpy_to_tmp_def length_le_bytes le_word_le_bytes_4_64)
  have t4: "take 4 (le_bytes 8 tmp) = le_bytes 4 tmp"
    by (simp add: take_le_bytes)
  have w: "memcpy_into (pciConfigSpace s) ?pos (le_bytes 8 tmp) 4
             = Some (take ?pos (pciConfigSpace s) @ le_bytes 4 tmp @ drop (?pos + 4) (pciConfigSpace s))"
    using memcpy_into_Some [of ?pos 4 "pciConfigSpace s" "le_bytes 8 tmp"] len off
    by (simp add: length_le_bytes t4)
  have r: "memcpy_from (take ?pos (pciConfigSpace s) @ le_bytes 4 tmp @ drop (?pos + 4) (pciConfigSpace s))
             ?pos data 4 = Some (le_bytes 4 tmp @ drop 4 data)"
    using memcpy_from_written [of ?pos 4 "pciConfigSpace s" "le_bytes 8 tmp" data] len off data
    by (simp add: length_le_bytes t4)
  show ?thesis
    by (simp add: config_write_read_def SMC_ConfigWrite_def SMC_ConfigRead_def tmp0 val w r
        length_le_bytes le_word_le_bytes_4_64_32)
qed

lemma bar_offset:
  assumes "k < 6" and "(ucast addr :: u8) = 0x10 + 4 * of_nat k"
  shows "(ucast addr :: u8) \<ge> 0x10 \<and> (ucast addr :: u8) < 0x34 \<and> (ucast addr :: u8) \<noteq> 0x30
         \<and> unat (drop_bit 2 ((ucast addr :: u8) - 0x10)) = k \<and> unat (ucast addr :: u8) + 4 \<le> 256"
proof -
  have "k = 0 \<or> k = 1 \<or> k = 2 \<or> k = 3 \<or> k = 4 \<or> k = 5" using assms(1) by arith
  then show ?thesis using assms(2) by (elim disjE) simp_all
qed

lemma config_value_discovery:
  assumes "k < 6" and "length sizes = 6" and "(off :: u8) = 0x10 + 4 * of_nat k"
    and "sizes ! k = 2 ^ n" and "n \<le> 30"
  shows "config_value sizes off 0xFFFFFFFF
           = Some (bar_scan 2 0xFFFFFFFF 2 (ucast (2 ^ n :: u32)) AND NOT 3)"
proof -
  have "(2 ^ n :: u32) \<noteq> 0" using assms(5) by (simp add: word_exp_length_eq_0)
  then show ?thesis
    using bar_offset [of k off] assms by (simp add: config_value_def)
qed

lemma config_value_plain:
  assumes "k < 6" and "length sizes = 6" and "(off :: u8) = 0x10 + 4 * of_nat k"
    and "sizes ! k = 0 \<or> tmp \<noteq> 0xFFFFFFFF"
  shows "config_value sizes off tmp = Some tmp"
  using bar_offset [of k off] assms by (auto simp: config_value_def)

text \<open>
  C3 (amended). For every BAR index \<open>k\<close> whose size \<open>barSizes[k]\<close> is a power of two
  \<open>2 ^ n\<close> with \<open>n \<le> 30\<close>, a 32-bit ConfigWrite of \<open>0xFFFFFFFF\<close> to BAR\<open>k\<close> followed
  by a ConfigRead of BAR\<open>k\<close> returns \<open>~(barSizes[k] - 1) & 0xFFFFFFFC\<close>, and after a
  subsequent 32-bit write of a value other than \<open>0xFFFFFFFF\<close> the next read returns
  exactly the written value. For \<open>barSizes[0] = 0x1000\<close> the discovery read returns
  \<open>0xFFFFF000\<close>.
\<close>

theorem BAR_discovery:
  assumes k: "k < 6" and sizes: "length (pciDevSizes s) = 6"
    and len: "length (pciConfigSpace s) = 256"
    and addr: "(ucast addr :: u8) = 0x10 + 4 * of_nat k"
    and data: "4 \<le> length data"
    and pow: "pciDevSizes s ! k = 2 ^ n" and n: "n \<le> 30"
    and v: "v \<noteq> 0xFFFFFFFF"
  shows "\<exists>s1 s2.
           config_write_read s addr 0xFFFFFFFF data
             = Some (s1, NOT (pciDevSizes s ! k - 1) AND 0xFFFFFFFC) \<and>
           config_write_read s1 addr v data = Some (s2, v)"
proof -
  let ?pos = "unat (ucast addr :: u8)"
  let ?tmp = "bar_scan 2 0xFFFFFFFF 2 (ucast (2 ^ n :: u32)) AND NOT 3"
  let ?s1 = "s\<lparr>pciConfigSpace :=
               take ?pos (pciConfigSpace s) @ le_bytes 4 ?tmp @ drop (?pos + 4) (pciConfigSpace s)\<rparr>"
  have off: "?pos + 4 \<le> 256" using bar_offset [OF k addr] by simp
  have ones: "(ucast (0xFFFFFFFF :: u32) :: u64) = 0xFFFFFFFF" by simp
  have updown: "(ucast (ucast v :: u64) :: u32) = v"
    by (rule bit_eqI) (auto simp: bit_simps)
  have v64: "(ucast v :: u64) \<noteq> 0xFFFFFFFF"
  proof
    assume "(ucast v :: u64) = 0xFFFFFFFF"
    then have "(ucast (ucast v :: u64) :: u32) = ucast (0xFFFFFFFF :: u64)" by (simp only:)
    then show False using v updown by simp
  qed
  have c1: "config_value (pciDevSizes s) (ucast addr) (ucast (0xFFFFFFFF :: u32)) = Some ?tmp"
    unfolding ones using config_value_discovery [OF k sizes addr pow n] .
  have r1: "config_write_read s addr 0xFFFFFFFF data = Some (?s1, ucast ?tmp)"
    using config_write_read_value [OF len off data c1] .
  have len1: "length (pciConfigSpace ?s1) = 256"
    using len off by (simp add: length_le_bytes)
  have sizes1: "length (pciDevSizes ?s1) = 6" using sizes by simp
  have c2: "config_value (pciDevSizes ?s1) (ucast addr) (ucast v) = Some (ucast v)"
    using config_value_plain [OF k sizes1 addr] v64 by simp
  have r2: "\<exists>s2. config_write_read ?s1 addr v data = Some (s2, v)"
    using config_write_read_value [OF len1 off data c2] updown by simp
  have "(ucast ?tmp :: u32) = NOT (pciDevSizes s ! k - 1) AND 0xFFFFFFFC"
    using discovery_value [OF n] pow by simp
  then show ?thesis using r1 r2 by auto
qed

theorem BAR_discovery_witness:
  "\<exists>s1 s2.
     config_write_read (SMC_example [0x1000, 0, 0, 0, 0, 0]) 0x10 0xFFFFFFFF [0, 0, 0, 0]
       = Some (s1, 0xFFFFF000) \<and>
     config_write_read s1 0x10 0x12345678 [0, 0, 0, 0] = Some (s2, 0x12345678)"
  using BAR_discovery [of 0 "SMC_example [0x1000, 0, 0, 0, 0, 0]" "0x10" "[0, 0, 0, 0]" 12
      "0x12345678"]
  by (simp add: SMC_example_def)

lemma bar_scan_0x30: "bar_scan 2 0xFFFFFFFF 2 0x30 = 0xFFFFFFC1"
  by (simp add: bar_scan.simps)

lemma bar_scan_0x80000000: "bar_scan 2 0xFFFFFFFF 2 0x80000000 = 0xC0000001"
  by (simp add: bar_scan.simps)

text \<open>
  C3 as stated fails for sizes that are not a power of two, and for the size \<open>2 ^ 31\<close>
  (the loop stops after 29 rounds): with \<open>barSizes[0] = 0x30\<close> the discovery read
  returns \<open>0xFFFFFFC0\<close> where \<open>~(0x30 - 1) & 0xFFFFFFFC\<close> is \<open>0xFFFFFFD0\<close>, and with
  \<open>barSizes[0] = 0x80000000\<close> it returns \<open>0xC0000000\<close> where the mask is \<open>0x80000000\<close>.
\<close>

theorem BAR_discovery_counterexample:
  "pciDevSizes (SMC_example [0x30, 0, 0, 0, 0, 0]) ! 0 \<noteq> 0 \<and>
   map_option snd
     (config_write_read (SMC_example [0x30, 0, 0, 0, 0, 0]) 0x10 0xFFFFFFFF [0, 0, 0, 0])
     = Some 0xFFFFFFC0 \<and>
   (NOT (0x30 - 1) AND 0xFFFFFFFC :: u32) = 0xFFFFFFD0 \<and>
   pciDevSizes (SMC_example [0x80000000, 0, 0, 0, 0, 0]) ! 0 \<noteq> 0 \<and>
   map_option snd
     (config_write_read (SMC_example [0x80000000, 0, 0, 0, 0, 0]) 0x10 0xFFFFFFFF [0, 0, 0, 0])
     = Some 0xC0000000 \<and>
   (NOT (0x80000000 - 1) AND 0xFFFFFFFC :: u32) = 0x80000000"
proof -
  have a: "config_value [0x30, 0, 0, 0, 0, 0] 0x10 0xFFFFFFFF = Some 0xFFFFFFC0"
    by (simp add: config_value_def bar_scan_0x30)
  have b: "config_value [0x80000000, 0, 0, 0, 0, 0] 0x10 0xFFFFFFFF = Some 0xC0000000"
    by (simp add: config_value_def bar_scan_0x80000000)
  have ra: "config_write_read (SMC_example [0x30, 0, 0, 0, 0, 0]) 0x10 0xFFFFFFFF [0, 0, 0, 0]
              = Some ((SMC_example [0x30, 0, 0, 0, 0, 0])
                       \<lparr>pciConfigSpace :=
                          take (unat (ucast (0x10 :: u64) :: u8))
                            (pciConfigSpace (SMC_example [0x30, 0, 0, 0, 0, 0]))
                          @ le_bytes 4 (0xFFFFFFC0 :: u64)
                          @ drop (unat (ucast (0x10 :: u64) :: u8) + 4)
                              (pciConfigSpace (SMC_example [0x30, 0, 0, 0, 0, 0]))\<rparr>,
                      ucast (0xFFFFFFC0 :: u64))"
    by (rule config_write_read_value) (simp_all add: SMC_example_def a)
  have rb: "config_write_read (SMC_example [0x80000000, 0, 0, 0, 0, 0]) 0x10 0xFFFFFFFF [0, 0, 0, 0]
              = Some ((SMC_example [0x80000000, 0, 0, 0, 0, 0])
                       \<lparr>pciConfigSpace :=
                          take (unat (ucast (0x10 :: u64) :: u8))
                            (pciConfigSpace (SMC_example [0x80000000, 0, 0, 0, 0, 0]))
                          @ le_bytes 4 (0xC0000000 :: u64)
                          @ drop (unat (ucast (0x10 :: u64) :: u8) + 4)
                              (pciConfigSpace (SMC_example [0x80000000, 0, 0, 0, 0, 0]))\<rparr>,
                      ucast (0xC0000000 :: u64))"
    by (rule config_write_read_value) (simp_all add: SMC_example_def b)
  show ?thesis
    unfolding ra rb by (simp add: SMC_example_def)
qed

text \<open>
  The sibling path in the same function: at offset \<open>0x30\<close>, the expansion ROM register
  that the source marks as not implemented, the value stored is 0 whatever is written
  (wherever the read of \<^verbatim>\<open>pciDevSizes[8]\<close> has a value).
\<close>

lemma expansion_ROM_forced_zero:
  assumes "8 < length sizes"
  shows "config_value sizes 0x30 tmp = Some 0"
  using assms by (simp add: config_value_def)

text \<open>
  C5, what the code does. For every BAR index \<open>k\<close> with \<open>barSizes[k] = 0\<close>, ConfigWrite
  stores the written value unchanged, and a following ConfigRead of BAR\<open>k\<close> returns
  exactly the value written, also for \<open>0xFFFFFFFF\<close>: the register of an unimplemented
  BAR is not forced to zero, unlike the expansion ROM register. With the sizes the
  constructor sets (\<open>barSizes[1] = 0\<close>), a write of \<open>0xFFFFFFFF\<close> to BAR1 (offset \<open>0x14\<close>)
  is read back as \<open>0xFFFFFFFF\<close>, not as zero.
\<close>

theorem unimplemented_BAR_stores:
  assumes k: "k < 6" and sizes: "length (pciDevSizes s) = 6"
    and len: "length (pciConfigSpace s) = 256"
    and addr: "(ucast addr :: u8) = 0x10 + 4 * of_nat k"
    and data: "4 \<le> length data"
    and zero: "pciDevSizes s ! k = 0"
  shows "\<exists>s1. config_write_read s addr v data = Some (s1, v)"
proof -
  have off: "unat (ucast addr :: u8) + 4 \<le> 256" using bar_offset [OF k addr] by simp
  have updown: "(ucast (ucast v :: u64) :: u32) = v"
    by (rule bit_eqI) (auto simp: bit_simps)
  have c: "config_value (pciDevSizes s) (ucast addr) (ucast v) = Some (ucast v)"
    using config_value_plain [OF k sizes addr] zero by simp
  show ?thesis
    using config_write_read_value [OF len off data c] updown by simp
qed

theorem unimplemented_BAR_stores_witness:
  "\<exists>s1. config_write_read (SMC_example [0x100, 0, 0, 0, 0, 0]) 0x14 0xFFFFFFFF [0, 0, 0, 0]
          = Some (s1, 0xFFFFFFFF)"
  using unimplemented_BAR_stores [of 1 "SMC_example [0x100, 0, 0, 0, 0, 0]" "0x14" "[0, 0, 0, 0]"
      "0xFFFFFFFF"]
  by (simp add: SMC_example_def)

section \<open>Results about the FIFO cursor\<close>

lemmas smc_reg_defs =
  UART_BYTE_OUT_REG_def UART_BYTE_IN_REG_def UART_STATUS_REG_def UART_CONFIG_REG_def
  SMI_INT_STATUS_REG_def SMI_INT_ACK_REG_def SMI_INT_ENABLED_REG_def
  CLCK_INT_ENABLED_REG_def CLCK_INT_STATUS_REG_def
  FIFO_IN_DATA_REG_def FIFO_IN_STATUS_REG_def FIFO_OUT_DATA_REG_def FIFO_OUT_STATUS_REG_def

lemma write_fifo_in_status_ready:
  assumes "(ucast a :: u8) = 0x84"
  shows "SMC_Write uo s a [4, 0, 0, 0] 4 =
           Some (s\<lparr>fifoInStatusReg := FIFO_STATUS_READY, fifoDataBuffer := replicate 16 0,
                    fifoBufferPos := 0\<rparr>, [])"
  using assms
  by (simp add: SMC_Write_def smc_reg_defs smc_write_reg_def memcpy_to_u32_def
      length_le_bytes FIFO_STATUS_READY_def)

lemma write_fifo_out_status_ready:
  assumes "(ucast a :: u8) = 0x94"
  shows "SMC_Write uo s a [4, 0, 0, 0] 4 =
           Some (s\<lparr>fifoOutStatusReg := FIFO_STATUS_READY, fifoBufferPos := 0\<rparr>, [])"
  using assms
  by (simp add: SMC_Write_def smc_reg_defs smc_write_reg_def memcpy_to_u32_def
      length_le_bytes FIFO_STATUS_READY_def)

lemma write_fifo_in_data:
  assumes "(ucast a :: u8) = 0x80"
  shows "SMC_Write uo s a d 4 =
           map_option
             (\<lambda>buf. (s\<lparr>fifoDataBuffer := buf, fifoBufferPos := fifoBufferPos s + 4\<rparr>, []))
             (memcpy_into (fifoDataBuffer s) (fifoBufferPos s) d 4)"
  using assms by (simp add: SMC_Write_def smc_reg_defs)

lemma read_fifo_out_data:
  assumes "(ucast a :: u8) = 0x90"
  shows "SMC_Read uo s a d 4 =
           map_option (\<lambda>d'. (s\<lparr>fifoBufferPos := fifoBufferPos s + 4\<rparr>, d', []))
             (memcpy_from (fifoDataBuffer s) (fifoBufferPos s) d 4)"
  using assms by (simp add: SMC_Read_def smc_reg_defs)

lemma four_writes:
  assumes a: "(ucast a :: u8) = 0x80"
    and d: "4 \<le> length d1" "4 \<le> length d2" "4 \<le> length d3" "4 \<le> length d4"
    and s: "fifoDataBuffer s = replicate 16 0" "fifoBufferPos s = 0"
  shows "SMC_Writes uo s [(a, d1, 4), (a, d2, 4), (a, d3, 4), (a, d4, 4)] =
           Some (s\<lparr>fifoDataBuffer := take 4 d1 @ take 4 d2 @ take 4 d3 @ take 4 d4,
                    fifoBufferPos := 16\<rparr>)"
  using d s by (simp add: write_fifo_in_data [OF a] memcpy_into_def min_def)

lemma split16:
  assumes "length xs = 16"
  shows "xs = take 4 xs @ take 4 (drop 4 xs) @ take 4 (drop 8 xs) @ take 4 (drop 12 xs)"
proof -
  have e4: "take 4 (drop 12 xs) = drop 12 xs" using assms by simp
  have e3: "take 4 (drop 8 xs) @ drop 12 xs = drop 8 xs"
    using append_take_drop_id [of 4 "drop 8 xs"] by simp
  have e2: "take 4 (drop 4 xs) @ drop 8 xs = drop 4 xs"
    using append_take_drop_id [of 4 "drop 4 xs"] by simp
  have e1: "take 4 xs @ drop 4 xs = xs" by simp
  show ?thesis by (simp only: e4 e3 e2 e1)
qed

lemma four_reads:
  assumes a: "(ucast a :: u8) = 0x90"
    and s: "length (fifoDataBuffer s) = 16" "fifoBufferPos s = 0"
  shows "SMC_Reads uo s a 4 = Some (s\<lparr>fifoBufferPos := 16\<rparr>, fifoDataBuffer s)"
proof -
  have n4: "SMC_Reads uo s a 4 = SMC_Reads uo s a (Suc (Suc (Suc (Suc 0))))"
    by (simp add: numeral_eq_Suc)
  have split: "fifoDataBuffer s =
      take 4 (fifoDataBuffer s) @ take 4 (drop 4 (fifoDataBuffer s))
      @ take 4 (drop 8 (fifoDataBuffer s)) @ take 4 (drop 12 (fifoDataBuffer s))"
    using s(1) by (rule split16)
  have "SMC_Reads uo s a (Suc (Suc (Suc (Suc 0)))) =
          Some (s\<lparr>fifoBufferPos := 16\<rparr>,
            take 4 (fifoDataBuffer s) @ take 4 (drop 4 (fifoDataBuffer s))
            @ take 4 (drop 8 (fifoDataBuffer s)) @ take 4 (drop 12 (fifoDataBuffer s)))"
    using s by (simp add: read_fifo_out_data [OF a] memcpy_from_def memcpy_out_def)
  then show ?thesis by (simp only: n4 split [symmetric])
qed

text \<open>
  C9. After a write of \<^verbatim>\<open>FIFO_STATUS_READY\<close> to \<^verbatim>\<open>FIFO_IN_STATUS\<close> has reset the cursor,
  four 32-bit writes to \<^verbatim>\<open>FIFO_IN_DATA\<close> fill the 16-byte buffer and bring the cursor
  \<open>fifoBufferPos\<close> to 16; a fifth write then copies to \<^verbatim>\<open>&fifoDataBuffer[16]\<close>, past
  the end of the buffer, and has no value. The same holds for reads: after a write of
  \<^verbatim>\<open>FIFO_STATUS_READY\<close> to \<^verbatim>\<open>FIFO_OUT_STATUS\<close>, four 32-bit reads from
  \<^verbatim>\<open>FIFO_OUT_DATA\<close> return the 16 bytes and bring the cursor to 16, and a fifth read
  has no value. Neither \<open>SMC_Read\<close> nor \<open>SMC_Write\<close> checks the cursor.
\<close>

theorem fifo_cursor_overrun:
  assumes in_status: "(ucast a_in_status :: u8) = 0x84"
    and in_data: "(ucast a_in_data :: u8) = 0x80"
    and out_status: "(ucast a_out_status :: u8) = 0x94"
    and out_data: "(ucast a_out_data :: u8) = 0x90"
    and d: "4 \<le> length d1" "4 \<le> length d2" "4 \<le> length d3" "4 \<le> length d4"
    and buf: "length (fifoDataBuffer s) = 16"
  shows "\<exists>s1 s2 s3.
           SMC_Writes uo s
             [(a_in_status, [4, 0, 0, 0], 4),
              (a_in_data, d1, 4), (a_in_data, d2, 4), (a_in_data, d3, 4), (a_in_data, d4, 4)]
             = Some s1 \<and>
           fifoBufferPos s1 = 16 \<and>
           fifoDataBuffer s1 = take 4 d1 @ take 4 d2 @ take 4 d3 @ take 4 d4 \<and>
           SMC_Write uo s1 a_in_data d5 4 = None \<and>
           SMC_Write uo s a_out_status [4, 0, 0, 0] 4 = Some (s2, []) \<and>
           SMC_Reads uo s2 a_out_data 4 = Some (s3, fifoDataBuffer s) \<and>
           fifoBufferPos s3 = 16 \<and>
           SMC_Read uo s3 a_out_data d6 4 = None"
proof -
  let ?s0 = "s\<lparr>fifoInStatusReg := FIFO_STATUS_READY, fifoDataBuffer := replicate 16 0,
                 fifoBufferPos := 0\<rparr>"
  let ?s1 = "?s0\<lparr>fifoDataBuffer := take 4 d1 @ take 4 d2 @ take 4 d3 @ take 4 d4,
                   fifoBufferPos := 16\<rparr>"
  let ?s2 = "s\<lparr>fifoOutStatusReg := FIFO_STATUS_READY, fifoBufferPos := 0\<rparr>"
  have w4: "SMC_Writes uo ?s0 [(a_in_data, d1, 4), (a_in_data, d2, 4), (a_in_data, d3, 4),
              (a_in_data, d4, 4)] = Some ?s1"
    by (rule four_writes [OF in_data d]) simp_all
  have w: "SMC_Writes uo s
             [(a_in_status, [4, 0, 0, 0], 4),
              (a_in_data, d1, 4), (a_in_data, d2, 4), (a_in_data, d3, 4), (a_in_data, d4, 4)]
             = Some ?s1"
    using w4 by (simp add: write_fifo_in_status_ready [OF in_status])
  have w5: "SMC_Write uo ?s1 a_in_data d5 4 = None"
    using d by (simp add: write_fifo_in_data [OF in_data] memcpy_into_def)
  have r0: "SMC_Write uo s a_out_status [4, 0, 0, 0] 4 = Some (?s2, [])"
    by (rule write_fifo_out_status_ready [OF out_status])
  have r4: "SMC_Reads uo ?s2 a_out_data 4 = Some (?s2\<lparr>fifoBufferPos := 16\<rparr>, fifoDataBuffer s)"
    using four_reads [OF out_data, of ?s2 uo] buf by simp
  have r5: "SMC_Read uo (?s2\<lparr>fifoBufferPos := 16\<rparr>) a_out_data d6 4 = None"
    using buf by (simp add: read_fifo_out_data [OF out_data] memcpy_from_def)
  have "fifoBufferPos ?s1 = 16 \<and>
        fifoDataBuffer ?s1 = take 4 d1 @ take 4 d2 @ take 4 d3 @ take 4 d4"
    by simp
  then show ?thesis
    using w w5 r0 r4 r5
    by (rule_tac x = ?s1 in exI, rule_tac x = ?s2 in exI,
        rule_tac x = "?s2\<lparr>fifoBufferPos := 16\<rparr>" in exI) simp
qed

theorem fifo_cursor_overrun_witness:
  "\<exists>s1 s2 s3.
     SMC_Writes UART_NULL (SMC_example [0x100, 0, 0, 0, 0, 0])
       [(0x84, [4, 0, 0, 0], 4),
        (0x80, [1, 2, 3, 4], 4), (0x80, [5, 6, 7, 8], 4),
        (0x80, [9, 10, 11, 12], 4), (0x80, [13, 14, 15, 16], 4)]
       = Some s1 \<and>
     fifoBufferPos s1 = 16 \<and>
     fifoDataBuffer s1 = [1, 2, 3, 4, 5, 6, 7, 8, 9, 10, 11, 12, 13, 14, 15, 16] \<and>
     SMC_Write UART_NULL s1 0x80 [17, 18, 19, 20] 4 = None \<and>
     SMC_Write UART_NULL (SMC_example [0x100, 0, 0, 0, 0, 0]) 0x94 [4, 0, 0, 0] 4 = Some (s2, []) \<and>
     SMC_Reads UART_NULL s2 0x90 4 = Some (s3, replicate 16 0) \<and>
     fifoBufferPos s3 = 16 \<and>
     SMC_Read UART_NULL s3 0x90 [0, 0, 0, 0] 4 = None"
proof -
  have len: "length (fifoDataBuffer (SMC_example [0x100, 0, 0, 0, 0, 0])) = 16"
    by (simp add: SMC_example_def)
  have buf: "fifoDataBuffer (SMC_example [0x100, 0, 0, 0, 0, 0]) = replicate 16 0"
    by (simp add: SMC_example_def)
  obtain s1 s2 s3 where
    "SMC_Writes UART_NULL (SMC_example [0x100, 0, 0, 0, 0, 0])
       [(0x84, [4, 0, 0, 0], 4),
        (0x80, [1, 2, 3, 4], 4), (0x80, [5, 6, 7, 8], 4),
        (0x80, [9, 10, 11, 12], 4), (0x80, [13, 14, 15, 16], 4)]
       = Some s1 \<and>
     fifoBufferPos s1 = 16 \<and>
     fifoDataBuffer s1 = take 4 [1, 2, 3, 4] @ take 4 [5, 6, 7, 8] @ take 4 [9, 10, 11, 12]
        @ take 4 [13, 14, 15, 16] \<and>
     SMC_Write UART_NULL s1 0x80 [17, 18, 19, 20] 4 = None \<and>
     SMC_Write UART_NULL (SMC_example [0x100, 0, 0, 0, 0, 0]) 0x94 [4, 0, 0, 0] 4 = Some (s2, []) \<and>
     SMC_Reads UART_NULL s2 0x90 4
       = Some (s3, fifoDataBuffer (SMC_example [0x100, 0, 0, 0, 0, 0])) \<and>
     fifoBufferPos s3 = 16 \<and>
     SMC_Read UART_NULL s3 0x90 [0, 0, 0, 0] 4 = None"
    using fifo_cursor_overrun [of "0x84" "0x80" "0x94" "0x90" "[1, 2, 3, 4]" "[5, 6, 7, 8]"
        "[9, 10, 11, 12]" "[13, 14, 15, 16]" "SMC_example [0x100, 0, 0, 0, 0, 0]" UART_NULL
        "[17, 18, 19, 20]" "[0, 0, 0, 0]", OF _ _ _ _ _ _ _ _ len]
    by auto
  then show ?thesis
    unfolding buf
    by (rule_tac x = s1 in exI, rule_tac x = s2 in exI, rule_tac x = s3 in exI) simp
qed

section \<open>Results about unknown registers and absent devices\<close>

lemma own_Read_unknown:
  assumes "a \<notin> {0xEA000000, 0xEA000004, 0xEA00000C, 0xEA000010, 0xEA000014, 0xEA000018,
                  0xEA00001C, 0xEA000020, 0xEA000024, 0xEA000028, 0xEA00002C, 0xEA000038,
                  0xEA00003C, 0xEA000040, 0xEA000044}"
  shows "own_Read st a data n = Some (data, [LOG_ERROR ''Unknown reg being read: 0x{:X}''])"
  using assms by (simp add: own_Read_def)

lemma own_Write_unknown:
  assumes "a \<notin> {0xEA000000, 0xEA000004, 0xEA00000C, 0xEA000010, 0xEA000014, 0xEA000018,
                  0xEA00001C, 0xEA000020, 0xEA000024, 0xEA000028, 0xEA00002C, 0xEA000038,
                  0xEA00003C, 0xEA000040, 0xEA000044}"
  shows "own_Write st a data n en la cpu irq
           = Some (st, [LOG_ERROR ''Unknown reg being written: 0x{:X}, 0x{:X}''])"
  using assms by (simp add: own_Write_def)

lemma SMC_Read_unknown:
  assumes "(ucast a :: u8) \<notin> {0x10, 0x18, 0x1C, 0x50, 0x58, 0x5C, 0x84, 0x94, 0x90}"
  shows "SMC_Read uo s a data n
           = Some (s, data, [LOG_ERROR ''Unknown register being read, offset 0x{:X}''])"
  using assms by (simp add: SMC_Read_def smc_reg_defs)

lemma SMC_Write_unknown:
  assumes "(ucast a :: u8) \<notin> {0x14, 0x1C, 0x50, 0x58, 0x5C, 0x64, 0x6C, 0x84, 0x94, 0x80}"
    and "n \<le> 8" and "n \<le> length data"
  shows "SMC_Write uo s a data n
           = Some (s, [LOG_ERROR ''Unknown register being written, offset 0x{:X}, data 0x{:X}''])"
  using assms by (simp add: SMC_Write_def smc_reg_defs memcpy_to_tmp_def)

text \<open>
  C6 (amended). For every MMIO read at an offset inside a device's window that is not
  one of its registers (a PCIBridge read in its own window at an address that is not a
  case of its switch, an SMC read at an offset that is not a case of its switch), the
  operation logs at error level and leaves the destination buffer as the caller passed
  it: the buffer is not zeroed. The corresponding write (of at most 8 bytes) logs at
  error level and is dropped without changing the state of the device.
\<close>

theorem unknown_register_access:
  assumes win: "PCI_BRIDGE_BASE_ADDRESS \<le> a" "a \<le> PCI_BRIDGE_BASE_END_ADDRESS"
    and a: "a \<notin> {0xEA000000, 0xEA000004, 0xEA00000C, 0xEA000010, 0xEA000014, 0xEA000018,
                    0xEA00001C, 0xEA000020, 0xEA000024, 0xEA000028, 0xEA00002C, 0xEA000038,
                    0xEA00003C, 0xEA000040, 0xEA000044}"
    and r: "(ucast ra :: u8) \<notin> {0x10, 0x18, 0x1C, 0x50, 0x58, 0x5C, 0x84, 0x94, 0x90}"
    and w: "(ucast wa :: u8) \<notin> {0x14, 0x1C, 0x50, 0x58, 0x5C, 0x64, 0x6C, 0x84, 0x94, 0x80}"
    and n: "n \<le> 8" "n \<le> length wdata"
  shows "PCIBridge_Read ops br a data n
           = Some (br, data, [LOG_ERROR ''Unknown reg being read: 0x{:X}''], True) \<and>
         PCIBridge_Write ops br a wdata n
           = Some (br, [LOG_ERROR ''Unknown reg being written: 0x{:X}, 0x{:X}''], True) \<and>
         SMC_Read uo s ra data n
           = Some (s, data, [LOG_ERROR ''Unknown register being read, offset 0x{:X}'']) \<and>
         SMC_Write uo s wa wdata n
           = Some (s, [LOG_ERROR ''Unknown register being written, offset 0x{:X}, data 0x{:X}''])"
proof -
  have br: "PCIBridge_Read ops br a data n
              = Some (br, data, [LOG_ERROR ''Unknown reg being read: 0x{:X}''], True)"
    using win by (simp add: PCIBridge_Read_def own_Read_unknown [OF a])
  have bw: "PCIBridge_Write ops br a wdata n
              = Some (br, [LOG_ERROR ''Unknown reg being written: 0x{:X}, 0x{:X}''], True)"
    using win n by (simp add: PCIBridge_Write_def own_Write_unknown [OF a] memcpy_to_tmp_def)
  have sr: "SMC_Read uo s ra data n
              = Some (s, data, [LOG_ERROR ''Unknown register being read, offset 0x{:X}''])"
    by (rule SMC_Read_unknown [OF r])
  have sw: "SMC_Write uo s wa wdata n
              = Some (s, [LOG_ERROR ''Unknown register being written, offset 0x{:X}, data 0x{:X}''])"
    by (rule SMC_Write_unknown [OF w n])
  show ?thesis
    using br bw sr sw by (intro conjI)
qed

theorem unknown_register_access_witness:
  "PCIBridge_Read (SMC_ops UART_NULL (\<lambda>s a. False)) (PCIBridge_example []) 0xEA000008 [0, 0, 0, 0] 4
     = Some (PCIBridge_example [], [0, 0, 0, 0],
             [LOG_ERROR ''Unknown reg being read: 0x{:X}''], True) \<and>
   PCIBridge_Write (SMC_ops UART_NULL (\<lambda>s a. False)) (PCIBridge_example []) 0xEA000008 [1, 2, 3, 4] 4
     = Some (PCIBridge_example [],
             [LOG_ERROR ''Unknown reg being written: 0x{:X}, 0x{:X}''], True) \<and>
   SMC_Read UART_NULL (SMC_example [0x100, 0, 0, 0, 0, 0]) 0x20 [0, 0, 0, 0] 4
     = Some (SMC_example [0x100, 0, 0, 0, 0, 0], [0, 0, 0, 0],
             [LOG_ERROR ''Unknown register being read, offset 0x{:X}'']) \<and>
   SMC_Write UART_NULL (SMC_example [0x100, 0, 0, 0, 0, 0]) 0x20 [1, 2, 3, 4] 4
     = Some (SMC_example [0x100, 0, 0, 0, 0, 0],
             [LOG_ERROR ''Unknown register being written, offset 0x{:X}, data 0x{:X}''])"
  using unknown_register_access [of "0xEA000008" "0x20" "0x20" 4 "[1, 2, 3, 4]"
      "SMC_ops UART_NULL (\<lambda>s a. False)" "PCIBridge_example []" "[0, 0, 0, 0]"
      UART_NULL "SMC_example [0x100, 0, 0, 0, 0, 0]"]
  by (simp add: PCI_BRIDGE_BASE_ADDRESS_def PCI_BRIDGE_BASE_END_ADDRESS_def)

text \<open>
  C6 as stated fails: a read of an unknown register does not return zero bytes. A
  buffer that holds \<open>0xAA, 0xBB, 0xCC, 0xDD\<close> before such a read holds the same bytes
  after it, for the bridge as for the SMC.
\<close>

theorem unknown_register_counterexample:
  "map_option (fst \<circ> snd)
     (PCIBridge_Read (SMC_ops UART_NULL (\<lambda>s a. False)) (PCIBridge_example [])
        0xEA000008 [0xAA, 0xBB, 0xCC, 0xDD] 4)
     = Some [0xAA, 0xBB, 0xCC, 0xDD] \<and>
   map_option (fst \<circ> snd)
     (SMC_Read UART_NULL (SMC_example [0x100, 0, 0, 0, 0, 0]) 0x20 [0xAA, 0xBB, 0xCC, 0xDD] 4)
     = Some [0xAA, 0xBB, 0xCC, 0xDD]"
  by (simp add: PCIBridge_Read_def own_Read_def SMC_Read_def smc_reg_defs
      PCI_BRIDGE_BASE_ADDRESS_def PCI_BRIDGE_BASE_END_ADDRESS_def)

lemma replicate_4: "replicate 4 x = [x, x, x, x]"
  by (simp add: numeral_eq_Suc)

lemma devices_ConfigRead_absent:
  assumes "nm \<notin> fst ` set devs" and "n \<le> length data"
  shows "devices_ConfigRead ops devs nm a data n
           = Some (replicate n 0xFF @ drop n data,
                   [LOG_ERROR ''Read to unimplemented device: {}''], False)"
  using assms by (induction devs) (auto simp: memset_out_def)

lemma devices_ConfigWrite_absent:
  assumes "nm \<notin> fst ` set devs"
  shows "devices_ConfigWrite ops devs nm a data n
           = Some (devs, [LOG_ERROR ''Config write to unimplemented device {}''], False)"
  using assms by (induction devs) auto

text \<open>
  C7, what the code does. For a configuration access that does not address the bridge
  itself: when the device number is in the table and no device of that name is
  attached, a read fills the buffer with \<open>0xFF\<close>, logs an error and returns \<open>false\<close>,
  and a write changes nothing, logs an error and returns \<open>false\<close>. When the device
  number is outside the table (the \<^verbatim>\<open>default\<close> branch), a write changes nothing and
  logs an error, but a read logs an error and returns \<open>true\<close> with the buffer left as
  the caller passed it: it is not filled with \<open>0xFF\<close>.
\<close>

theorem config_absent_slot:
  assumes other: "busNum c \<noteq> 0 \<or> devNum c \<noteq> 0"
    and n: "n \<le> length data" "n \<le> 8"
  shows "(currentDevName c = None \<longrightarrow>
            PCIBridge_ConfigRead ops br c a data n
              = Some (data,
                  [LOG_ERROR ''Config Space Read: Unknown device accessed: Dev 0x{:X}, Reg 0x{:X}''],
                  True) \<and>
            map_option fst (PCIBridge_ConfigWrite ops br c a data n) = Some br) \<and>
         (\<forall>nm. currentDevName c = Some nm \<and> nm \<notin> fst ` set (connectedPCIDevices br) \<longrightarrow>
            PCIBridge_ConfigRead ops br c a data n
              = Some (replicate n 0xFF @ drop n data,
                  [LOG_ERROR ''Read to unimplemented device: {}''], False) \<and>
            PCIBridge_ConfigWrite ops br c a data n
              = Some (br, [LOG_ERROR ''Config write to unimplemented device {}''], False))"
  using other n
  by (auto simp: PCIBridge_ConfigRead_def PCIBridge_ConfigWrite_def memcpy_to_tmp_def
      devices_ConfigRead_absent devices_ConfigWrite_absent)

theorem config_absent_slot_witness:
  "PCIBridge_ConfigRead (SMC_ops UART_NULL (\<lambda>s a. False)) (PCIBridge_example [])
     \<lparr>busNum = 0, devNum = 3, functNum = 0, regOffset = 0\<rparr> 0x1800 [0, 0, 0, 0] 4
     = Some ([0, 0, 0, 0],
         [LOG_ERROR ''Config Space Read: Unknown device accessed: Dev 0x{:X}, Reg 0x{:X}''],
         True) \<and>
   PCIBridge_ConfigRead (SMC_ops UART_NULL (\<lambda>s a. False)) (PCIBridge_example [])
     \<lparr>busNum = 0, devNum = 0xA, functNum = 0, regOffset = 0\<rparr> 0x5000 [0, 0, 0, 0] 4
     = Some ([0xFF, 0xFF, 0xFF, 0xFF],
         [LOG_ERROR ''Read to unimplemented device: {}''], False)"
  using config_absent_slot [of "\<lparr>busNum = 0, devNum = 3, functNum = 0, regOffset = 0\<rparr>" 4
      "[0, 0, 0, 0]" "SMC_ops UART_NULL (\<lambda>s a. False)" "PCIBridge_example []" "0x1800"]
    config_absent_slot [of "\<lparr>busNum = 0, devNum = 0xA, functNum = 0, regOffset = 0\<rparr>" 4
      "[0, 0, 0, 0]" "SMC_ops UART_NULL (\<lambda>s a. False)" "PCIBridge_example []" "0x5000"]
  by (simp add: currentDevName_def PCIBridge_example_def replicate_4)

section \<open>Results about the FIFO command block\<close>

lemma route_calls_logs: "route_calls (map SMC_Log lg) = []"
  by (induction lg) simp_all

lemma non_log_logs: "non_log (map SMC_Log lg) = []"
  by (induction lg) simp_all

lemma non_log_append: "non_log (xs @ ys) = non_log xs @ non_log ys"
  by (induction xs rule: non_log.induct) simp_all

lemma route_calls_append: "route_calls (xs @ ys) = route_calls xs @ route_calls ys"
  by (induction xs rule: route_calls.induct) simp_all

lemma fifo_command_noResponse:
  "fst (snd (snd (fifo_command c s))) = (c = SMC_SET_FP_LEDS)"
  by (cases c) (simp_all add: unimplemented_cmd_def split_beta Let_def)

lemma fifo_command_no_route:
  "route_calls (snd (snd (snd (fifo_command c s)))) = []"
  by (cases c) (simp_all add: unimplemented_cmd_def split_beta Let_def route_calls_logs)

lemma fifo_command_non_log:
  "non_log (snd (snd (snd (fifo_command c s)))) =
     (if c = SMC_SET_STANDBY \<and> fifoDataBuffer s ! 1 = 0x01 then [Set_XeRunning False]
      else if c = SMC_SET_STANDBY \<and> fifoDataBuffer s ! 1 = 0x04
           then [Call_Reboot (fifoDataBuffer s ! 2)]
      else [])"
  by (cases c) (simp_all add: unimplemented_cmd_def split_beta Let_def non_log_logs)

lemma fifo_command_buffer:
  "fst (fifo_command c s) =
     (case c of
        SMC_PWRON_TYPE \<Rightarrow> (replicate 16 0)[0 := fifoDataBuffer s ! 0, 1 := currPowerOnReason s]
      | SMC_QUERY_RTC \<Rightarrow> (replicate 16 0)[0 := fifoDataBuffer s ! 0, 1 := 0]
      | SMC_QUERY_TEMP_SENS \<Rightarrow>
          (fifoDataBuffer s)[1 := 0x24, 2 := 0x1B, 3 := 0x2F, 4 := 0xA4, 5 := 0x2C, 6 := 0x24,
                             7 := 0x26, 8 := 0x2C]
      | SMC_QUERY_TRAY_STATE \<Rightarrow> (fifoDataBuffer s)[1 := currTrayState s]
      | SMC_QUERY_AVPACK \<Rightarrow> (fifoDataBuffer s)[1 := currAVPackType s]
      | SMC_I2C_READ_WRITE \<Rightarrow>
          fst (i2c_read_write (fifoDataBuffer s ! 0) (fifoDataBuffer s) (hanaState s))
      | SMC_QUERY_VERSION \<Rightarrow> (fifoDataBuffer s)[1 := 0x41, 2 := 0x02, 3 := 0x03]
      | _ \<Rightarrow> fifoDataBuffer s)"
  by (cases c) (simp_all add: unimplemented_cmd_def split_beta Let_def)

lemma fifo_command_hana:
  "fst (snd (fifo_command c s)) =
     (case c of
        SMC_I2C_READ_WRITE \<Rightarrow>
          fst (snd (i2c_read_write (fifoDataBuffer s ! 0) (fifoDataBuffer s) (hanaState s)))
      | _ \<Rightarrow> hanaState s)"
  by (cases c) (simp_all add: unimplemented_cmd_def split_beta Let_def)

text \<open>
  C4. When the thread finds \<^verbatim>\<open>FIFO_IN_STATUS = BUSY\<close>, the block does, in this order:
  the store of \<^verbatim>\<open>BUSY\<close> to \<^verbatim>\<open>FIFO_OUT_STATUS\<close>; the store of \<^verbatim>\<open>READY\<close> to
  \<^verbatim>\<open>FIFO_IN_STATUS\<close>; the command selected by byte 0 of the 16-byte message, which
  leaves its response in the same buffer (byte 0 keeps the command identifier) and, for
  \<^verbatim>\<open>SET_STANDBY\<close>, stores \<^verbatim>\<open>XeRunning = false\<close> or calls \<^verbatim>\<open>Reboot\<close>; the store of
  \<^verbatim>\<open>READY\<close> to \<^verbatim>\<open>FIFO_OUT_STATUS\<close>; and then, exactly when
  \<^verbatim>\<open>smiIntEnabledReg & SMI_INT_ENABLED\<close> is non-zero and the command is not
  \<^verbatim>\<open>SET_FP_LEDS\<close>, the store of \<^verbatim>\<open>SMI_INT_PENDING\<close> to \<^verbatim>\<open>smiIntPendingReg\<close> and the call
  \<^verbatim>\<open>RouteInterrupt(PRIO_SMM)\<close>. No other call of \<^verbatim>\<open>RouteInterrupt\<close> is made; after
  \<^verbatim>\<open>SET_FP_LEDS\<close> none is made. The response of each command is the one given below;
  commands without a response leave the buffer as the guest wrote it.
\<close>

theorem fifo_block_sequence:
  assumes busy: "fifoInStatusReg s = FIFO_STATUS_BUSY"
    and msg: "msg = fifoDataBuffer s"
    and K: "K = cmd_of (msg ! 0)"
    and blk: "smc_fifo_block cmd_of s = (s1, events)"
    and irq: "irq = (smiIntEnabledReg s AND SMI_INT_ENABLED \<noteq> 0 \<and> K \<noteq> SMC_SET_FP_LEDS)"
  shows "non_log events =
           [Set_fifoOutStatusReg FIFO_STATUS_BUSY, Set_fifoInStatusReg FIFO_STATUS_READY]
           @ (if K = SMC_SET_STANDBY \<and> msg ! 1 = 0x01 then [Set_XeRunning False]
              else if K = SMC_SET_STANDBY \<and> msg ! 1 = 0x04 then [Call_Reboot (msg ! 2)]
              else [])
           @ [Set_fifoOutStatusReg FIFO_STATUS_READY]
           @ (if irq then [Set_smiIntPendingReg SMI_INT_PENDING, Call_RouteInterrupt PRIO_SMM]
              else []) \<and>
         route_calls events = (if irq then [PRIO_SMM] else []) \<and>
         fifoOutStatusReg s1 = FIFO_STATUS_READY \<and>
         fifoInStatusReg s1 = FIFO_STATUS_READY \<and>
         smiIntPendingReg s1 = (if irq then SMI_INT_PENDING else smiIntPendingReg s) \<and>
         fifoDataBuffer s1 =
           (case K of
              SMC_PWRON_TYPE \<Rightarrow> (replicate 16 0)[0 := msg ! 0, 1 := currPowerOnReason s]
            | SMC_QUERY_RTC \<Rightarrow> (replicate 16 0)[0 := msg ! 0, 1 := 0]
            | SMC_QUERY_TEMP_SENS \<Rightarrow>
                msg[1 := 0x24, 2 := 0x1B, 3 := 0x2F, 4 := 0xA4, 5 := 0x2C, 6 := 0x24,
                    7 := 0x26, 8 := 0x2C]
            | SMC_QUERY_TRAY_STATE \<Rightarrow> msg[1 := currTrayState s]
            | SMC_QUERY_AVPACK \<Rightarrow> msg[1 := currAVPackType s]
            | SMC_I2C_READ_WRITE \<Rightarrow> fst (i2c_read_write (msg ! 0) msg (hanaState s))
            | SMC_QUERY_VERSION \<Rightarrow> msg[1 := 0x41, 2 := 0x02, 3 := 0x03]
            | _ \<Rightarrow> msg) \<and>
         hanaState s1 =
           (case K of
              SMC_I2C_READ_WRITE \<Rightarrow> fst (snd (i2c_read_write (msg ! 0) msg (hanaState s)))
            | _ \<Rightarrow> hanaState s)"
proof -
  let ?r = "fifo_command K s"
  let ?evs = "snd (snd (snd ?r))"
  let ?irq = "smiIntEnabledReg s AND SMI_INT_ENABLED \<noteq> 0 \<and> \<not> fst (snd (snd ?r))"
  let ?s0 = "s\<lparr>fifoOutStatusReg := FIFO_STATUS_READY, fifoInStatusReg := FIFO_STATUS_READY,
                fifoDataBuffer := fst ?r, hanaState := fst (snd ?r)\<rparr>"
  have unfold: "smc_fifo_block cmd_of s =
      ((if ?irq then ?s0\<lparr>smiIntPendingReg := SMI_INT_PENDING\<rparr> else ?s0),
       [Set_fifoOutStatusReg FIFO_STATUS_BUSY, Set_fifoInStatusReg FIFO_STATUS_READY]
       @ ?evs @ [Set_fifoOutStatusReg FIFO_STATUS_READY]
       @ (if ?irq then [Set_smiIntPendingReg SMI_INT_PENDING, Call_RouteInterrupt PRIO_SMM]
          else []))"
    using busy by (simp add: smc_fifo_block_def split_beta Let_def K msg)
  have irq': "?irq = irq"
    by (simp add: irq fifo_command_noResponse)
  have s1: "s1 = (if irq then ?s0\<lparr>smiIntPendingReg := SMI_INT_PENDING\<rparr> else ?s0)"
    using blk unfolding unfold irq' by simp
  have ev: "events =
       [Set_fifoOutStatusReg FIFO_STATUS_BUSY, Set_fifoInStatusReg FIFO_STATUS_READY]
       @ ?evs @ [Set_fifoOutStatusReg FIFO_STATUS_READY]
       @ (if irq then [Set_smiIntPendingReg SMI_INT_PENDING, Call_RouteInterrupt PRIO_SMM]
          else [])"
    using blk unfolding unfold irq' by simp
  have nl: "non_log events =
           [Set_fifoOutStatusReg FIFO_STATUS_BUSY, Set_fifoInStatusReg FIFO_STATUS_READY]
           @ (if K = SMC_SET_STANDBY \<and> msg ! 1 = 0x01 then [Set_XeRunning False]
              else if K = SMC_SET_STANDBY \<and> msg ! 1 = 0x04 then [Call_Reboot (msg ! 2)]
              else [])
           @ [Set_fifoOutStatusReg FIFO_STATUS_READY]
           @ (if irq then [Set_smiIntPendingReg SMI_INT_PENDING, Call_RouteInterrupt PRIO_SMM]
              else [])"
    unfolding ev by (simp add: non_log_append fifo_command_non_log msg)
  have rc: "route_calls events = (if irq then [PRIO_SMM] else [])"
    unfolding ev by (simp add: route_calls_append fifo_command_no_route)
  have regs: "fifoOutStatusReg s1 = FIFO_STATUS_READY \<and> fifoInStatusReg s1 = FIFO_STATUS_READY \<and>
              smiIntPendingReg s1 = (if irq then SMI_INT_PENDING else smiIntPendingReg s)"
    by (simp add: s1)
  have buf: "fifoDataBuffer s1 = fst ?r" by (simp add: s1)
  have hana: "hanaState s1 = fst (snd ?r)" by (simp add: s1)
  show ?thesis
    using nl rc regs unfolding buf hana fifo_command_buffer fifo_command_hana msg
    by simp
qed

theorem fifo_block_sequence_witness:
  "fifoDataBuffer (fst (smc_message
       (\<lambda>b. if b = 0x12 then SMC_QUERY_VERSION else if b = 0x99 then SMC_SET_FP_LEDS
            else SMC_UNKNOWN)
       ((SMC_example [0x100, 0, 0, 0, 0, 0])\<lparr>smiIntEnabledReg := 0xC\<rparr>)
       (0x12 # replicate 15 0))) = [0x12, 0x41, 0x02, 0x03] @ replicate 12 0 \<and>
   route_calls (snd (smc_message
       (\<lambda>b. if b = 0x12 then SMC_QUERY_VERSION else if b = 0x99 then SMC_SET_FP_LEDS
            else SMC_UNKNOWN)
       ((SMC_example [0x100, 0, 0, 0, 0, 0])\<lparr>smiIntEnabledReg := 0xC\<rparr>)
       (0x12 # replicate 15 0))) = [PRIO_SMM] \<and>
   non_log (snd (smc_message
       (\<lambda>b. if b = 0x12 then SMC_QUERY_VERSION else if b = 0x99 then SMC_SET_FP_LEDS
            else SMC_UNKNOWN)
       ((SMC_example [0x100, 0, 0, 0, 0, 0])\<lparr>smiIntEnabledReg := 0xC\<rparr>)
       (0x12 # replicate 15 0))) =
     [Set_fifoOutStatusReg FIFO_STATUS_BUSY, Set_fifoInStatusReg FIFO_STATUS_READY,
      Set_fifoOutStatusReg FIFO_STATUS_READY, Set_smiIntPendingReg SMI_INT_PENDING,
      Call_RouteInterrupt PRIO_SMM] \<and>
   route_calls (snd (smc_message
       (\<lambda>b. if b = 0x12 then SMC_QUERY_VERSION else if b = 0x99 then SMC_SET_FP_LEDS
            else SMC_UNKNOWN)
       ((SMC_example [0x100, 0, 0, 0, 0, 0])\<lparr>smiIntEnabledReg := 0xC\<rparr>)
       (0x99 # replicate 15 0))) = [] \<and>
   route_calls (snd (smc_message
       (\<lambda>b. if b = 0x12 then SMC_QUERY_VERSION else if b = 0x99 then SMC_SET_FP_LEDS
            else SMC_UNKNOWN)
       (SMC_example [0x100, 0, 0, 0, 0, 0])
       (0x12 # replicate 15 0))) = []"
proof -
  let ?cmd_of = "\<lambda>b :: u8. if b = 0x12 then SMC_QUERY_VERSION
                     else if b = 0x99 then SMC_SET_FP_LEDS else SMC_UNKNOWN"
  let ?on = "(SMC_example [0x100, 0, 0, 0, 0, 0])\<lparr>smiIntEnabledReg := 0xC\<rparr>"
  let ?off = "SMC_example [0x100, 0, 0, 0, 0, 0]"
  let ?g = "\<lambda>s msg. s\<lparr>fifoDataBuffer := msg, fifoInStatusReg := FIFO_STATUS_BUSY\<rparr>"
  have r15: "replicate 15 (0 :: u8) = [0, 0, 0] @ replicate 12 0"
    by (simp add: numeral_eq_Suc)
  have a: "fifoDataBuffer (fst (smc_fifo_block ?cmd_of (?g ?on (0x12 # replicate 15 0))))
             = [0x12, 0x41, 0x02, 0x03] @ replicate 12 0 \<and>
           route_calls (snd (smc_fifo_block ?cmd_of (?g ?on (0x12 # replicate 15 0)))) = [PRIO_SMM] \<and>
           non_log (snd (smc_fifo_block ?cmd_of (?g ?on (0x12 # replicate 15 0)))) =
             [Set_fifoOutStatusReg FIFO_STATUS_BUSY, Set_fifoInStatusReg FIFO_STATUS_READY,
              Set_fifoOutStatusReg FIFO_STATUS_READY, Set_smiIntPendingReg SMI_INT_PENDING,
              Call_RouteInterrupt PRIO_SMM]"
    using fifo_block_sequence [of "?g ?on (0x12 # replicate 15 0)" "0x12 # replicate 15 0"
        SMC_QUERY_VERSION ?cmd_of
        "fst (smc_fifo_block ?cmd_of (?g ?on (0x12 # replicate 15 0)))"
        "snd (smc_fifo_block ?cmd_of (?g ?on (0x12 # replicate 15 0)))" True]
    by (simp add: SMC_example_def SMI_INT_ENABLED_def r15)
  have b: "route_calls (snd (smc_fifo_block ?cmd_of (?g ?on (0x99 # replicate 15 0)))) = []"
    using fifo_block_sequence [of "?g ?on (0x99 # replicate 15 0)" "0x99 # replicate 15 0"
        SMC_SET_FP_LEDS ?cmd_of
        "fst (smc_fifo_block ?cmd_of (?g ?on (0x99 # replicate 15 0)))"
        "snd (smc_fifo_block ?cmd_of (?g ?on (0x99 # replicate 15 0)))" False]
    by (simp add: SMC_example_def SMI_INT_ENABLED_def)
  have c: "route_calls (snd (smc_fifo_block ?cmd_of (?g ?off (0x12 # replicate 15 0)))) = []"
    using fifo_block_sequence [of "?g ?off (0x12 # replicate 15 0)" "0x12 # replicate 15 0"
        SMC_QUERY_VERSION ?cmd_of
        "fst (smc_fifo_block ?cmd_of (?g ?off (0x12 # replicate 15 0)))"
        "snd (smc_fifo_block ?cmd_of (?g ?off (0x12 # replicate 15 0)))" False]
    by (simp add: SMC_example_def SMI_INT_ENABLED_def)
  show ?thesis
    using a b c by (simp add: smc_message_def)
qed

section \<open>Results about the HANA registers\<close>

lemma i2c_write_smbus:
  assumes "length buf = 16" and "buf ! 1 = 0x60"
  shows "i2c_read_write b0 buf hana =
           (buf[0 := b0, 1 := 0],
            hana(buf ! 6 :=
              ucast (buf ! 8) OR push_bit 8 (ucast (buf ! 9)) OR push_bit 16 (ucast (buf ! 10))
                OR push_bit 24 (ucast (buf ! 11))),
            [])"
  using assms by (simp add: i2c_read_write_def Let_def)

lemma i2c_read_hana:
  assumes "length buf = 16" and "buf ! 1 = 0x10" and "buf ! 5 = 0xF0"
  shows "i2c_read_write b0 buf hana =
           (buf[0 := b0, 1 := 0,
                4 := ucast (hana (buf ! 6) AND 0xFF),
                5 := ucast (drop_bit 8 (hana (buf ! 6)) AND 0xFF),
                6 := ucast (drop_bit 16 (hana (buf ! 6)) AND 0xFF),
                7 := ucast (drop_bit 24 (hana (ucast (drop_bit 16 (hana (buf ! 6)) AND 0xFF)))
                            AND 0xFF)],
            hana, [])"
  using assms by (simp add: i2c_read_write_def Let_def)

text \<open>
  C2, what the code does. After a sub-op \<open>0x60\<close> message has written the value \<open>V\<close>
  (\<open>byte8 | byte9<<8 | byte10<<16 | byte11<<24\<close>) to HANA index \<open>i\<close>, a sub-op \<open>0x10\<close>
  message with byte 5 = \<open>0xF0\<close> and byte 6 = \<open>i\<close> leaves \<open>V & 0xFF\<close>, \<open>(V>>8) & 0xFF\<close> and
  \<open>(V>>16) & 0xFF\<close> in the response bytes 4, 5 and 6. Byte 7 is not read from register
  \<open>i\<close>: byte 6 has been overwritten by then, and byte 7 is the top byte of the HANA
  register whose index is the new byte 6, \<open>(V>>16) & 0xFF\<close>.
\<close>

theorem HANA_round_trip:
  assumes cmd: "cmd_of c = SMC_I2C_READ_WRITE"
    and wmsg: "length wmsg = 16" "wmsg ! 0 = c" "wmsg ! 1 = 0x60" "wmsg ! 6 = i"
    and V: "V = ucast (wmsg ! 8) OR push_bit 8 (ucast (wmsg ! 9))
                  OR push_bit 16 (ucast (wmsg ! 10)) OR push_bit 24 (ucast (wmsg ! 11))"
    and rmsg: "length rmsg = 16" "rmsg ! 0 = c" "rmsg ! 1 = 0x10" "rmsg ! 5 = 0xF0" "rmsg ! 6 = i"
    and s1: "s1 = fst (smc_message cmd_of s wmsg)"
    and s2: "s2 = fst (smc_message cmd_of s1 rmsg)"
  shows "hanaState s1 = (hanaState s)(i := V) \<and>
         fifoDataBuffer s2 ! 4 = ucast (V AND 0xFF) \<and>
         fifoDataBuffer s2 ! 5 = ucast (drop_bit 8 V AND 0xFF) \<and>
         fifoDataBuffer s2 ! 6 = ucast (drop_bit 16 V AND 0xFF) \<and>
         fifoDataBuffer s2 ! 7 =
           ucast (drop_bit 24 (((hanaState s)(i := V)) (ucast (drop_bit 16 V AND 0xFF))) AND 0xFF)"
proof -
  have h1: "hanaState s1 = (hanaState s)(i := V)"
    using cmd wmsg V
    by (simp add: s1 smc_message_def smc_fifo_block_def i2c_write_smbus Let_def)
  have b2: "fifoDataBuffer s2 =
              rmsg[0 := c, 1 := 0,
                4 := ucast (hanaState s1 i AND 0xFF),
                5 := ucast (drop_bit 8 (hanaState s1 i) AND 0xFF),
                6 := ucast (drop_bit 16 (hanaState s1 i) AND 0xFF),
                7 := ucast (drop_bit 24 (hanaState s1
                              (ucast (drop_bit 16 (hanaState s1 i) AND 0xFF))) AND 0xFF)]"
    using cmd rmsg
    by (simp add: s2 smc_message_def smc_fifo_block_def i2c_read_hana Let_def)
  show ?thesis
    using rmsg(1) by (simp add: b2 h1)
qed

text \<open>
  The scenario of C2 at the failing input: HANA register \<open>0xAD\<close> is first set to 0 by
  a sub-op \<open>0x60\<close> message, then \<open>0xDEADBEEF\<close> is written to index \<open>0x12\<close> and read
  back. The response bytes 4 to 7 are \<open>0xEF, 0xBE, 0xAD, 0x00\<close>: byte 7 is the top byte of
  register \<open>0xAD\<close>, not \<open>0xDE\<close>.
\<close>

theorem HANA_round_trip_witness:
  "fifoDataBuffer
     (fst (smc_message (\<lambda>b. if b = 0x11 then SMC_I2C_READ_WRITE else SMC_UNKNOWN)
       (fst (smc_message (\<lambda>b. if b = 0x11 then SMC_I2C_READ_WRITE else SMC_UNKNOWN)
         (fst (smc_message (\<lambda>b. if b = 0x11 then SMC_I2C_READ_WRITE else SMC_UNKNOWN)
           (SMC_example [0x100, 0, 0, 0, 0, 0])
           [0x11, 0x60, 0, 0, 0, 0, 0xAD, 0, 0, 0, 0, 0, 0, 0, 0, 0]))
         [0x11, 0x60, 0, 0, 0, 0, 0x12, 0, 0xEF, 0xBE, 0xAD, 0xDE, 0, 0, 0, 0]))
       [0x11, 0x10, 0, 0, 0, 0xF0, 0x12, 0, 0, 0, 0, 0, 0, 0, 0, 0])) ! 4 = 0xEF \<and>
   fifoDataBuffer
     (fst (smc_message (\<lambda>b. if b = 0x11 then SMC_I2C_READ_WRITE else SMC_UNKNOWN)
       (fst (smc_message (\<lambda>b. if b = 0x11 then SMC_I2C_READ_WRITE else SMC_UNKNOWN)
         (fst (smc_message (\<lambda>b. if b = 0x11 then SMC_I2C_READ_WRITE else SMC_UNKNOWN)
           (SMC_example [0x100, 0, 0, 0, 0, 0])
           [0x11, 0x60, 0, 0, 0, 0, 0xAD, 0, 0, 0, 0, 0, 0, 0, 0, 0]))
         [0x11, 0x60, 0, 0, 0, 0, 0x12, 0, 0xEF, 0xBE, 0xAD, 0xDE, 0, 0, 0, 0]))
       [0x11, 0x10, 0, 0, 0, 0xF0, 0x12, 0, 0, 0, 0, 0, 0, 0, 0, 0])) ! 5 = 0xBE \<and>
   fifoDataBuffer
     (fst (smc_message (\<lambda>b. if b = 0x11 then SMC_I2C_READ_WRITE else SMC_UNKNOWN)
       (fst (smc_message (\<lambda>b. if b = 0x11 then SMC_I2C_READ_WRITE else SMC_UNKNOWN)
         (fst (smc_message (\<lambda>b. if b = 0x11 then SMC_I2C_READ_WRITE else SMC_UNKNOWN)
           (SMC_example [0x100, 0, 0, 0, 0, 0])
           [0x11, 0x60, 0, 0, 0, 0, 0xAD, 0, 0, 0, 0, 0, 0, 0, 0, 0]))
         [0x11, 0x60, 0, 0, 0, 0, 0x12, 0, 0xEF, 0xBE, 0xAD, 0xDE, 0, 0, 0, 0]))
       [0x11, 0x10, 0, 0, 0, 0xF0, 0x12, 0, 0, 0, 0, 0, 0, 0, 0, 0])) ! 6 = 0xAD \<and>
   fifoDataBuffer
     (fst (smc_message (\<lambda>b. if b = 0x11 then SMC_I2C_READ_WRITE else SMC_UNKNOWN)
       (fst (smc_message (\<lambda>b. if b = 0x11 then SMC_I2C_READ_WRITE else SMC_UNKNOWN)
         (fst (smc_message (\<lambda>b. if b = 0x11 then SMC_I2C_READ_WRITE else SMC_UNKNOWN)
           (SMC_example [0x100, 0, 0, 0, 0, 0])
           [0x11, 0x60, 0, 0, 0, 0, 0xAD, 0, 0, 0, 0, 0, 0, 0, 0, 0]))
         [0x11, 0x60, 0, 0, 0, 0, 0x12, 0, 0xEF, 0xBE, 0xAD, 0xDE, 0, 0, 0, 0]))
       [0x11, 0x10, 0, 0, 0, 0xF0, 0x12, 0, 0, 0, 0, 0, 0, 0, 0, 0])) ! 7 = 0x00"
proof -
  let ?cmd_of = "\<lambda>b :: u8. if b = 0x11 then SMC_I2C_READ_WRITE else SMC_UNKNOWN"
  let ?m0 = "[0x11, 0x60, 0, 0, 0, 0, 0xAD, 0, 0, 0, 0, 0, 0, 0, 0, 0] :: u8 list"
  let ?wmsg = "[0x11, 0x60, 0, 0, 0, 0, 0x12, 0, 0xEF, 0xBE, 0xAD, 0xDE, 0, 0, 0, 0] :: u8 list"
  let ?rmsg = "[0x11, 0x10, 0, 0, 0, 0xF0, 0x12, 0, 0, 0, 0, 0, 0, 0, 0, 0] :: u8 list"
  let ?sA = "fst (smc_message ?cmd_of (SMC_example [0x100, 0, 0, 0, 0, 0]) ?m0)"
  let ?s1 = "fst (smc_message ?cmd_of ?sA ?wmsg)"
  let ?s2 = "fst (smc_message ?cmd_of ?s1 ?rmsg)"
  have hA: "hanaState ?sA 0xAD = 0"
    by (simp add: smc_message_def smc_fifo_block_def i2c_write_smbus Let_def SMC_example_def)
  have V: "(0xDEADBEEF :: u32) = ucast (?wmsg ! 8) OR push_bit 8 (ucast (?wmsg ! 9))
                  OR push_bit 16 (ucast (?wmsg ! 10)) OR push_bit 24 (ucast (?wmsg ! 11))"
    by simp
  have "fifoDataBuffer ?s2 ! 4 = ucast ((0xDEADBEEF :: u32) AND 0xFF) \<and>
        fifoDataBuffer ?s2 ! 5 = ucast (drop_bit 8 (0xDEADBEEF :: u32) AND 0xFF) \<and>
        fifoDataBuffer ?s2 ! 6 = ucast (drop_bit 16 (0xDEADBEEF :: u32) AND 0xFF) \<and>
        fifoDataBuffer ?s2 ! 7 =
          ucast (drop_bit 24 (((hanaState ?sA)(0x12 := 0xDEADBEEF))
                   (ucast (drop_bit 16 (0xDEADBEEF :: u32) AND 0xFF))) AND 0xFF)"
    using HANA_round_trip [of ?cmd_of "0x11" ?wmsg "0x12" "0xDEADBEEF" ?rmsg ?s1 ?sA ?s2, OF _ _ _ _ _ V]
    by simp
  then show ?thesis
    using hA by simp
qed

end
